theory Spec2Isabelle
  imports Main "HOL-Library.Word"
begin

section \<open>Go values seen by the hostname1 adapter\<close>

text \<open>
  The adapter of \<^verbatim>\<open>hostname1/dbus.go\<close> talks to a bus client library. The library is
  not part of the repository, so its operations are parameters of the model; what the
  adapter itself does with their results is translated from the source.

  A Go \<^verbatim>\<open>error\<close> is either an error handed over by the bus library or the value
  built by \<^verbatim>\<open>fmt.Errorf\<close>, which carries the formatted message.
\<close>

datatype error = BusError string | Errorf string

text \<open>
  The dynamic types a decoded bus value can have, and their names as \<^verbatim>\<open>%T\<close> prints
  them.
\<close>

datatype gotype =
    TBool | TUint8 | TInt16 | TUint16 | TInt32 | TUint32 | TInt64 | TUint64
  | TFloat64 | TString | TObjectPath | TSignature | TVariant | TInterface
  | TSlice gotype | TMap gotype gotype

fun typeString :: "gotype \<Rightarrow> string" where
  "typeString TBool = ''bool''"
| "typeString TUint8 = ''uint8''"
| "typeString TInt16 = ''int16''"
| "typeString TUint16 = ''uint16''"
| "typeString TInt32 = ''int32''"
| "typeString TUint32 = ''uint32''"
| "typeString TInt64 = ''int64''"
| "typeString TUint64 = ''uint64''"
| "typeString TFloat64 = ''float64''"
| "typeString TString = ''string''"
| "typeString TObjectPath = ''dbus.ObjectPath''"
| "typeString TSignature = ''dbus.Signature''"
| "typeString TVariant = ''dbus.Variant''"
| "typeString TInterface = ''interface {}''"
| "typeString (TSlice t) = ''[]'' @ typeString t"
| "typeString (TMap k v) = ''map['' @ typeString k @ '']'' @ typeString v"

text \<open>
  An \<^verbatim>\<open>interface{}\<close> value: nil, or a value together with its dynamic type. A
  \<^verbatim>\<open>float64\<close> is kept as its 64 bits. A \<^verbatim>\<open>dbus.Variant\<close> pairs a signature with
  a value; \<^verbatim>\<open>Value()\<close> reads the value.
\<close>

datatype iface =
    GoNil
  | GoBool bool
  | GoUint8 "8 word"
  | GoInt16 "16 word"
  | GoUint16 "16 word"
  | GoInt32 "32 word"
  | GoUint32 "32 word"
  | GoInt64 "64 word"
  | GoUint64 "64 word"
  | GoFloat64 "64 word"
  | GoString string
  | GoObjectPath string
  | GoSignature string
  | GoVariant variant
  | GoSlice gotype "iface list"
  | GoMap gotype gotype "(iface \<times> iface) list"
and variant = Variant (sig: string) (Value: iface)

fun dynType :: "iface \<Rightarrow> gotype option" where
  "dynType GoNil = None"
| "dynType (GoBool _) = Some TBool"
| "dynType (GoUint8 _) = Some TUint8"
| "dynType (GoInt16 _) = Some TInt16"
| "dynType (GoUint16 _) = Some TUint16"
| "dynType (GoInt32 _) = Some TInt32"
| "dynType (GoUint32 _) = Some TUint32"
| "dynType (GoInt64 _) = Some TInt64"
| "dynType (GoUint64 _) = Some TUint64"
| "dynType (GoFloat64 _) = Some TFloat64"
| "dynType (GoString _) = Some TString"
| "dynType (GoObjectPath _) = Some TObjectPath"
| "dynType (GoSignature _) = Some TSignature"
| "dynType (GoVariant _) = Some TVariant"
| "dynType (GoSlice t _) = Some (TSlice t)"
| "dynType (GoMap k v _) = Some (TMap k v)"

definition fmtT :: "iface \<Rightarrow> string" where
  \<comment> \<open>the verb \<^verbatim>\<open>%T\<close> of package fmt\<close>
  "fmtT v = (case dynType v of None \<Rightarrow> ''<nil>'' | Some t \<Rightarrow> typeString t)"

text \<open>\<^verbatim>\<open>strconv.Itoa\<close>: the decimal rendering of an integer.\<close>

definition digitChar :: "nat \<Rightarrow> char" where
  "digitChar d = ''0123456789'' ! d"

fun formatUint :: "nat \<Rightarrow> string" where
  "formatUint n =
     (if n < 10 then [digitChar n] else formatUint (n div 10) @ [digitChar (n mod 10)])"

declare formatUint.simps [simp del]

definition Itoa :: "int \<Rightarrow> string" where
  "Itoa i = (if i < 0 then CHR ''-'' # formatUint (nat (- i)) else formatUint (nat i))"

section \<open>The bus client library as the adapter's environment\<close>

text \<open>
  A \<^verbatim>\<open>*dbus.Conn\<close> and a \<^verbatim>\<open>dbus.BusObject\<close> are handles owned by the library;
  \<open>None\<close> is Go's nil. \<^verbatim>\<open>dbus.Auth\<close> lists the library's authentication mechanisms,
  and a \<^verbatim>\<open>*dbus.Call\<close> carries the error and the body of a reply.
\<close>

type_synonym conn_ptr = "nat option"
type_synonym busobject = "nat option"

datatype auth = AuthExternal string | AuthCookieSha1 string string | AuthAnonymous

record dcall =
  Err :: "error option"
  Body :: "iface list"

text \<open>
  Every operation of the library is recorded, with what it answered, in a trace; the
  trace is the only state outside the adapter.
\<close>

datatype event =
    EvSystemBusPrivate conn_ptr "error option"
  | EvAuth conn_ptr "auth list" "error option"
  | EvHello conn_ptr "error option"
  | EvClose conn_ptr "error option"
  | EvObject conn_ptr string string busobject
  | EvCall nat string "8 word" "iface list" dcall

text \<open>
  The library and the operating system answer as a function of everything that
  happened before. \<open>StoreVariant\<close> and \<open>StoreProps\<close> are \<^verbatim>\<open>(*Call).Store\<close> into a
  \<^verbatim>\<open>*dbus.Variant\<close> and into a \<^verbatim>\<open>*map[string]dbus.Variant\<close>; the entries of the
  map come in the order in which \<^verbatim>\<open>range\<close> will visit them.
\<close>

record bus =
  SystemBusPrivate :: "event list \<Rightarrow> conn_ptr \<times> error option"
  Getuid :: "event list \<Rightarrow> int"
  Auth :: "event list \<Rightarrow> conn_ptr \<Rightarrow> auth list \<Rightarrow> error option"
  Hello :: "event list \<Rightarrow> conn_ptr \<Rightarrow> error option"
  CloseConn :: "event list \<Rightarrow> conn_ptr \<Rightarrow> error option"
  Object :: "event list \<Rightarrow> conn_ptr \<Rightarrow> string \<Rightarrow> string \<Rightarrow> busobject"
  Call :: "event list \<Rightarrow> nat \<Rightarrow> string \<Rightarrow> 8 word \<Rightarrow> iface list \<Rightarrow> dcall"
  StoreVariant :: "dcall \<Rightarrow> error + variant"
  StoreProps :: "dcall \<Rightarrow> error + (string \<times> variant) list"

definition dbus_SystemBusPrivate ::
  "bus \<Rightarrow> event list \<Rightarrow> (conn_ptr \<times> error option) \<times> event list" where
  "dbus_SystemBusPrivate env t =
     (let r = SystemBusPrivate env t in (r, t @ [EvSystemBusPrivate (fst r) (snd r)]))"

definition conn_Auth ::
  "bus \<Rightarrow> conn_ptr \<Rightarrow> auth list \<Rightarrow> event list \<Rightarrow> error option \<times> event list" where
  "conn_Auth env p methods t =
     (let r = Auth env t p methods in (r, t @ [EvAuth p methods r]))"

definition conn_Hello :: "bus \<Rightarrow> conn_ptr \<Rightarrow> event list \<Rightarrow> error option \<times> event list" where
  "conn_Hello env p t = (let r = Hello env t p in (r, t @ [EvHello p r]))"

definition conn_Close :: "bus \<Rightarrow> conn_ptr \<Rightarrow> event list \<Rightarrow> error option \<times> event list" where
  "conn_Close env p t = (let r = CloseConn env t p in (r, t @ [EvClose p r]))"

definition conn_Object ::
  "bus \<Rightarrow> conn_ptr \<Rightarrow> string \<Rightarrow> string \<Rightarrow> event list \<Rightarrow> busobject \<times> event list" where
  "conn_Object env p dest path t =
     (let r = Object env t p dest path in (r, t @ [EvObject p dest path r]))"

definition object_Call ::
  "bus \<Rightarrow> nat \<Rightarrow> string \<Rightarrow> 8 word \<Rightarrow> iface list \<Rightarrow> event list \<Rightarrow> dcall \<times> event list" where
  "object_Call env ob method flags args t =
     (let r = Call env t ob method flags args in (r, t @ [EvCall ob method flags args r]))"

section \<open>hostname1/dbus.go\<close>

definition dbusInterface :: string where
  "dbusInterface = ''org.freedesktop.hostname1''"

definition dbusPath :: string where
  "dbusPath = ''/org/freedesktop/hostname1''"

record Conn =
  conn :: conn_ptr
  object :: busobject

text \<open>
  A method with a pointer receiver takes the struct and returns it as the method left
  it. Calling a method of the nil \<^verbatim>\<open>object\<close> panics.
\<close>

datatype 'a outcome = Panics | Returns 'a

definition initConnection ::
  "bus \<Rightarrow> Conn \<Rightarrow> event list \<Rightarrow> error option \<times> Conn \<times> event list" where
  "initConnection env c t0 =
     (let ((p, err), t1) = dbus_SystemBusPrivate env t0;
          c1 = c\<lparr>conn := p\<rparr>
      in if err \<noteq> None then (err, c1, t1)
         else
           let methods = [AuthExternal (Itoa (Getuid env t1))];
               (err, t2) = conn_Auth env (conn c1) methods t1
           in if err \<noteq> None then
                let (_, t3) = conn_Close env (conn c1) t2 in (err, c1, t3)
              else
                let (err, t3) = conn_Hello env (conn c1) t2
                in if err \<noteq> None then
                     let (_, t4) = conn_Close env (conn c1) t3 in (err, c1, t4)
                   else
                     let (ob, t4) = conn_Object env (conn c1) ''org.freedesktop.hostname1''
                                      dbusPath t3;
                         c2 = c1\<lparr>object := ob\<rparr>
                     in (None, c2, t4))"

definition New :: "bus \<Rightarrow> event list \<Rightarrow> (Conn option \<times> error option) \<times> event list" where
  "New env t =
     (let c = \<lparr>conn = None, object = None\<rparr>;
          (err, c', t') = initConnection env c t
      in if err \<noteq> None then ((None, err), t') else ((Some c', None), t'))"

definition Close :: "bus \<Rightarrow> Conn \<Rightarrow> event list \<Rightarrow> error option \<times> Conn \<times> event list" where
  "Close env c t = (let (r, t') = conn_Close env (conn c) t in (r, c, t'))"

text \<open>
  The loop \<^verbatim>\<open>for k, v := range props { out[k] = v.Value() }\<close> over the entries of
  \<^verbatim>\<open>props\<close>, in the order the iteration visits them.
\<close>

fun rangeLoop :: "(string \<times> variant) list \<Rightarrow> (string \<rightharpoonup> iface) \<Rightarrow> (string \<rightharpoonup> iface)" where
  "rangeLoop [] out = out"
| "rangeLoop ((k, v) # props) out = rangeLoop props (out(k \<mapsto> Value v))"

definition GetProperties ::
  "bus \<Rightarrow> Conn \<Rightarrow> event list
     \<Rightarrow> (((string \<rightharpoonup> iface) option \<times> error option) \<times> Conn \<times> event list) outcome" where
  "GetProperties env c t =
     (case object c of
        None \<Rightarrow> Panics
      | Some ob \<Rightarrow>
          let (call, t') = object_Call env ob ''org.freedesktop.DBus.Properties.GetAll'' 0
                             [GoString dbusInterface] t
          in (case StoreProps env call of
                Inl err \<Rightarrow> Returns ((None, Some err), c, t')
              | Inr props \<Rightarrow> Returns ((Some (rangeLoop props Map.empty), None), c, t')))"

definition GetProperty ::
  "bus \<Rightarrow> Conn \<Rightarrow> string \<Rightarrow> event list
     \<Rightarrow> ((iface \<times> error option) \<times> Conn \<times> event list) outcome" where
  "GetProperty env c propertyName t =
     (case object c of
        None \<Rightarrow> Panics
      | Some ob \<Rightarrow>
          let (call, t') = object_Call env ob ''org.freedesktop.DBus.Properties.Get'' 0
                             [GoString dbusInterface, GoString propertyName] t
          in (case StoreVariant env call of
                Inl err \<Rightarrow> Returns ((GoNil, Some err), c, t')
              | Inr prop \<Rightarrow> Returns ((Value prop, None), c, t')))"

text \<open>The type assertion \<^verbatim>\<open>hn.(string)\<close> in its two-result form.\<close>

fun assertString :: "iface \<Rightarrow> string \<times> bool" where
  "assertString (GoString s) = (s, True)"
| "assertString _ = ('''', False)"

definition GetHostname ::
  "bus \<Rightarrow> Conn \<Rightarrow> event list \<Rightarrow> ((string \<times> error option) \<times> Conn \<times> event list) outcome" where
  "GetHostname env c t =
     (case GetProperty env c ''Hostname'' t of
        Panics \<Rightarrow> Panics
      | Returns ((hn, err), c', t') \<Rightarrow>
          if err \<noteq> None then Returns (('''', err), c', t')
          else
            let (hns, ok) = assertString hn
            in if \<not> ok then
                 Returns (('''', Some (Errorf (''hostname has incorrect type: '' @ fmtT hn))),
                          c', t')
               else Returns ((hns, None), c', t'))"

definition GetStaticHostname ::
  "bus \<Rightarrow> Conn \<Rightarrow> event list \<Rightarrow> ((string \<times> error option) \<times> Conn \<times> event list) outcome" where
  "GetStaticHostname env c t =
     (case GetProperty env c ''StaticHostname'' t of
        Panics \<Rightarrow> Panics
      | Returns ((hn, err), c', t') \<Rightarrow>
          if err \<noteq> None then Returns (('''', err), c', t')
          else
            let (hns, ok) = assertString hn
            in if \<not> ok then
                 Returns (('''', Some (Errorf (''hostname has incorrect type: '' @ fmtT hn))),
                          c', t')
               else Returns ((hns, None), c', t'))"

definition SetHostname ::
  "bus \<Rightarrow> Conn \<Rightarrow> string \<Rightarrow> bool \<Rightarrow> event list
     \<Rightarrow> (error option \<times> Conn \<times> event list) outcome" where
  "SetHostname env c name askForAuth t =
     (case object c of
        None \<Rightarrow> Panics
      | Some ob \<Rightarrow>
          let (call, t') = object_Call env ob (dbusInterface @ ''.SetHostname'') 0
                             [GoString name, GoBool askForAuth] t
          in Returns (Err call, c, t'))"

definition SetStaticHostname ::
  "bus \<Rightarrow> Conn \<Rightarrow> string \<Rightarrow> bool \<Rightarrow> event list
     \<Rightarrow> (error option \<times> Conn \<times> event list) outcome" where
  "SetStaticHostname env c name askForAuth t =
     (case object c of
        None \<Rightarrow> Panics
      | Some ob \<Rightarrow>
          let (call, t') = object_Call env ob (dbusInterface @ ''.SetStaticHostname'') 0
                             [GoString name, GoBool askForAuth] t
          in Returns (Err call, c, t'))"

definition SetPrettyHostname ::
  "bus \<Rightarrow> Conn \<Rightarrow> string \<Rightarrow> bool \<Rightarrow> event list
     \<Rightarrow> (error option \<times> Conn \<times> event list) outcome" where
  "SetPrettyHostname env c name askForAuth t =
     (case object c of
        None \<Rightarrow> Panics
      | Some ob \<Rightarrow>
          let (call, t') = object_Call env ob (dbusInterface @ ''.SetPrettyHostname'') 0
                             [GoString name, GoBool askForAuth] t
          in Returns (Err call, c, t'))"

definition SetIconName ::
  "bus \<Rightarrow> Conn \<Rightarrow> string \<Rightarrow> bool \<Rightarrow> event list
     \<Rightarrow> (error option \<times> Conn \<times> event list) outcome" where
  "SetIconName env c name askForAuth t =
     (case object c of
        None \<Rightarrow> Panics
      | Some ob \<Rightarrow>
          let (call, t') = object_Call env ob (dbusInterface @ ''.SetIconName'') 0
                             [GoString name, GoBool askForAuth] t
          in Returns (Err call, c, t'))"

definition SetChassis ::
  "bus \<Rightarrow> Conn \<Rightarrow> string \<Rightarrow> bool \<Rightarrow> event list
     \<Rightarrow> (error option \<times> Conn \<times> event list) outcome" where
  "SetChassis env c name askForAuth t =
     (case object c of
        None \<Rightarrow> Panics
      | Some ob \<Rightarrow>
          let (call, t') = object_Call env ob (dbusInterface @ ''.SetChassis'') 0
                             [GoString name, GoBool askForAuth] t
          in Returns (Err call, c, t'))"

section \<open>The setters-only file\<close>

text \<open>
  The second source file declares the same constants and the same struct, \<^verbatim>\<open>New\<close>,
  \<^verbatim>\<open>initConnection\<close> and the five setters, and no getter. Its operations carry the
  suffix \<open>_p0\<close>; the struct is the record \<open>Conn\<close> above.
\<close>

definition dbusInterface_p0 :: string where
  "dbusInterface_p0 = ''org.freedesktop.hostname1''"

definition dbusPath_p0 :: string where
  "dbusPath_p0 = ''/org/freedesktop/hostname1''"

definition initConnection_p0 ::
  "bus \<Rightarrow> Conn \<Rightarrow> event list \<Rightarrow> error option \<times> Conn \<times> event list" where
  "initConnection_p0 env c t0 =
     (let ((p, err), t1) = dbus_SystemBusPrivate env t0;
          c1 = c\<lparr>conn := p\<rparr>
      in if err \<noteq> None then (err, c1, t1)
         else
           let methods = [AuthExternal (Itoa (Getuid env t1))];
               (err, t2) = conn_Auth env (conn c1) methods t1
           in if err \<noteq> None then
                let (_, t3) = conn_Close env (conn c1) t2 in (err, c1, t3)
              else
                let (err, t3) = conn_Hello env (conn c1) t2
                in if err \<noteq> None then
                     let (_, t4) = conn_Close env (conn c1) t3 in (err, c1, t4)
                   else
                     let (ob, t4) = conn_Object env (conn c1) ''org.freedesktop.hostname1''
                                      dbusPath_p0 t3;
                         c2 = c1\<lparr>object := ob\<rparr>
                     in (None, c2, t4))"

definition New_p0 :: "bus \<Rightarrow> event list \<Rightarrow> (Conn option \<times> error option) \<times> event list" where
  "New_p0 env t =
     (let c = \<lparr>conn = None, object = None\<rparr>;
          (err, c', t') = initConnection_p0 env c t
      in if err \<noteq> None then ((None, err), t') else ((Some c', None), t'))"

definition SetHostname_p0 ::
  "bus \<Rightarrow> Conn \<Rightarrow> string \<Rightarrow> bool \<Rightarrow> event list
     \<Rightarrow> (error option \<times> Conn \<times> event list) outcome" where
  "SetHostname_p0 env c name askForAuth t =
     (case object c of
        None \<Rightarrow> Panics
      | Some ob \<Rightarrow>
          let (call, t') = object_Call env ob (dbusInterface_p0 @ ''.SetHostname'') 0
                             [GoString name, GoBool askForAuth] t
          in Returns (Err call, c, t'))"

definition SetStaticHostname_p0 ::
  "bus \<Rightarrow> Conn \<Rightarrow> string \<Rightarrow> bool \<Rightarrow> event list
     \<Rightarrow> (error option \<times> Conn \<times> event list) outcome" where
  "SetStaticHostname_p0 env c name askForAuth t =
     (case object c of
        None \<Rightarrow> Panics
      | Some ob \<Rightarrow>
          let (call, t') = object_Call env ob (dbusInterface_p0 @ ''.SetStaticHostname'') 0
                             [GoString name, GoBool askForAuth] t
          in Returns (Err call, c, t'))"

definition SetPrettyHostname_p0 ::
  "bus \<Rightarrow> Conn \<Rightarrow> string \<Rightarrow> bool \<Rightarrow> event list
     \<Rightarrow> (error option \<times> Conn \<times> event list) outcome" where
  "SetPrettyHostname_p0 env c name askForAuth t =
     (case object c of
        None \<Rightarrow> Panics
      | Some ob \<Rightarrow>
          let (call, t') = object_Call env ob (dbusInterface_p0 @ ''.SetPrettyHostname'') 0
                             [GoString name, GoBool askForAuth] t
          in Returns (Err call, c, t'))"

definition SetIconName_p0 ::
  "bus \<Rightarrow> Conn \<Rightarrow> string \<Rightarrow> bool \<Rightarrow> event list
     \<Rightarrow> (error option \<times> Conn \<times> event list) outcome" where
  "SetIconName_p0 env c name askForAuth t =
     (case object c of
        None \<Rightarrow> Panics
      | Some ob \<Rightarrow>
          let (call, t') = object_Call env ob (dbusInterface_p0 @ ''.SetIconName'') 0
                             [GoString name, GoBool askForAuth] t
          in Returns (Err call, c, t'))"

definition SetChassis_p0 ::
  "bus \<Rightarrow> Conn \<Rightarrow> string \<Rightarrow> bool \<Rightarrow> event list
     \<Rightarrow> (error option \<times> Conn \<times> event list) outcome" where
  "SetChassis_p0 env c name askForAuth t =
     (case object c of
        None \<Rightarrow> Panics
      | Some ob \<Rightarrow>
          let (call, t') = object_Call env ob (dbusInterface_p0 @ ''.SetChassis'') 0
                             [GoString name, GoBool askForAuth] t
          in Returns (Err call, c, t'))"

section \<open>Notions the properties are stated with\<close>

text \<open>
  The connections a run of events leaves open: a successful
  \<^verbatim>\<open>SystemBusPrivate\<close> opens the handle it returns, \<^verbatim>\<open>Close\<close> releases it.
\<close>

fun open_conns :: "event list \<Rightarrow> conn_ptr list \<Rightarrow> conn_ptr list" where
  "open_conns [] acc = acc"
| "open_conns (EvSystemBusPrivate p err # evs) acc =
     open_conns evs (if err = None then acc @ [p] else acc)"
| "open_conns (EvClose p _ # evs) acc = open_conns evs (removeAll p acc)"
| "open_conns (_ # evs) acc = open_conns evs acc"

text \<open>The error of a construction step, and the first one in a run of events.\<close>

fun step_error :: "event \<Rightarrow> error option" where
  "step_error (EvSystemBusPrivate _ err) = err"
| "step_error (EvAuth _ _ err) = err"
| "step_error (EvHello _ err) = err"
| "step_error _ = None"

fun first_error :: "event list \<Rightarrow> error option" where
  "first_error [] = None"
| "first_error (ev # evs) =
     (case step_error ev of None \<Rightarrow> first_error evs | Some e \<Rightarrow> Some e)"

text \<open>The mechanism lists handed to \<^verbatim>\<open>Auth\<close>, and the remote calls, of a run of events.\<close>

fun auth_methods :: "event list \<Rightarrow> auth list list" where
  "auth_methods [] = []"
| "auth_methods (EvAuth _ methods _ # evs) = methods # auth_methods evs"
| "auth_methods (_ # evs) = auth_methods evs"

fun remote_calls :: "event list \<Rightarrow> (nat \<times> string \<times> 8 word \<times> iface list) list" where
  "remote_calls [] = []"
| "remote_calls (EvCall ob method flags args _ # evs) =
     (ob, method, flags, args) # remote_calls evs"
| "remote_calls (_ # evs) = remote_calls evs"

text \<open>The value of a string of decimal digits.\<close>

definition digitVal :: "char \<Rightarrow> nat" where
  "digitVal ch = of_char ch - 48"

fun decimalValue :: "string \<Rightarrow> nat \<Rightarrow> nat" where
  "decimalValue [] acc = acc"
| "decimalValue (ch # s) acc = decimalValue s (10 * acc + digitVal ch)"

text \<open>
  String coercion of a fetched property, as the typed getters are specified: an error of
  the fetch is passed on with the empty string, a string is returned as it is, and any
  other value is a type-mismatch error naming its dynamic type.
\<close>

definition coerceString :: "iface \<times> error option \<Rightarrow> string \<times> error option" where
  "coerceString r =
     (case snd r of
        Some e \<Rightarrow> ('''', Some e)
      | None \<Rightarrow>
          (case fst r of
             GoString s \<Rightarrow> (s, None)
           | v \<Rightarrow> ('''', Some (Errorf (''hostname has incorrect type: '' @ fmtT v)))))"

section \<open>A stub bus\<close>

text \<open>
  A bus on which every step succeeds, run by user 1000. The remote object answers
  \<^verbatim>\<open>Get\<close> of \<^verbatim>\<open>Hostname\<close> with the string \<^verbatim>\<open>node-1\<close>, \<^verbatim>\<open>Get\<close> of
  \<^verbatim>\<open>StaticHostname\<close> with the 32-bit integer 42, \<^verbatim>\<open>GetAll\<close> with both, a setter
  with an empty reply and anything else with an error. \<^verbatim>\<open>Store\<close> returns the error of
  the call if there is one and decodes the body otherwise.
\<close>

definition stubProps :: "(iface \<times> iface) list" where
  "stubProps =
     [(GoString ''Hostname'', GoVariant (Variant ''s'' (GoString ''node-1''))),
      (GoString ''StaticHostname'', GoVariant (Variant ''i'' (GoInt32 42)))]"

definition stubCall :: "event list \<Rightarrow> nat \<Rightarrow> string \<Rightarrow> 8 word \<Rightarrow> iface list \<Rightarrow> dcall" where
  "stubCall t ob method flags args =
     (if method = ''org.freedesktop.DBus.Properties.Get'' then
        (if args = [GoString ''org.freedesktop.hostname1'', GoString ''Hostname''] then
           \<lparr>Err = None, Body = [GoVariant (Variant ''s'' (GoString ''node-1''))]\<rparr>
         else if args = [GoString ''org.freedesktop.hostname1'', GoString ''StaticHostname''] then
           \<lparr>Err = None, Body = [GoVariant (Variant ''i'' (GoInt32 42))]\<rparr>
         else \<lparr>Err = Some (BusError ''org.freedesktop.DBus.Error.UnknownProperty''), Body = []\<rparr>)
      else if method = ''org.freedesktop.DBus.Properties.GetAll'' then
        \<lparr>Err = None, Body = [GoMap TString TVariant stubProps]\<rparr>
      else if method \<in> set [''org.freedesktop.hostname1.SetHostname'',
                            ''org.freedesktop.hostname1.SetStaticHostname'',
                            ''org.freedesktop.hostname1.SetPrettyHostname'',
                            ''org.freedesktop.hostname1.SetIconName'',
                            ''org.freedesktop.hostname1.SetChassis''] then
        \<lparr>Err = None, Body = []\<rparr>
      else \<lparr>Err = Some (BusError ''org.freedesktop.DBus.Error.UnknownMethod''), Body = []\<rparr>)"

definition stubStoreVariant :: "dcall \<Rightarrow> error + variant" where
  "stubStoreVariant call =
     (case Err call of
        Some e \<Rightarrow> Inl e
      | None \<Rightarrow>
          (case Body call of
             [GoVariant v] \<Rightarrow> Inr v
           | _ \<Rightarrow> Inl (BusError ''dbus.Store: type mismatch'')))"

fun stubEntries :: "(iface \<times> iface) list \<Rightarrow> (string \<times> variant) list" where
  "stubEntries [] = []"
| "stubEntries ((GoString k, GoVariant v) # kvs) = (k, v) # stubEntries kvs"
| "stubEntries (_ # kvs) = stubEntries kvs"

definition stubStoreProps :: "dcall \<Rightarrow> error + (string \<times> variant) list" where
  "stubStoreProps call =
     (case Err call of
        Some e \<Rightarrow> Inl e
      | None \<Rightarrow>
          (case Body call of
             [GoMap TString TVariant kvs] \<Rightarrow> Inr (stubEntries kvs)
           | _ \<Rightarrow> Inl (BusError ''dbus.Store: type mismatch'')))"

definition stubBus :: bus where
  "stubBus =
     \<lparr>SystemBusPrivate = (\<lambda>t. (Some 1, None)),
      Getuid = (\<lambda>t. 1000),
      Auth = (\<lambda>t p methods. None),
      Hello = (\<lambda>t p. None),
      CloseConn = (\<lambda>t p. None),
      Object = (\<lambda>t p dest path. Some 7),
      Call = stubCall,
      StoreVariant = stubStoreVariant,
      StoreProps = stubStoreProps\<rparr>"

definition stubConn :: Conn where
  "stubConn = \<lparr>conn = Some 1, object = Some 7\<rparr>"

section \<open>What the operations compute\<close>

lemma New_unfold:
  "New env t =
     (let r = SystemBusPrivate env t; p = fst r;
          t1 = t @ [EvSystemBusPrivate p (snd r)]
      in if snd r \<noteq> None then ((None, snd r), t1)
         else
           let methods = [AuthExternal (Itoa (Getuid env t1))];
               a = Auth env t1 p methods;
               t2 = t1 @ [EvAuth p methods a]
           in if a \<noteq> None then ((None, a), t2 @ [EvClose p (CloseConn env t2 p)])
              else
                let h = Hello env t2 p; t3 = t2 @ [EvHello p h]
                in if h \<noteq> None then ((None, h), t3 @ [EvClose p (CloseConn env t3 p)])
                   else
                     let ob = Object env t3 p ''org.freedesktop.hostname1''
                                ''/org/freedesktop/hostname1''
                     in ((Some \<lparr>conn = p, object = ob\<rparr>, None),
                         t3 @ [EvObject p ''org.freedesktop.hostname1''
                                 ''/org/freedesktop/hostname1'' ob]))"
  by (simp add: New_def initConnection_def dbus_SystemBusPrivate_def conn_Auth_def
      conn_Hello_def conn_Close_def conn_Object_def dbusPath_def Let_def case_prod_beta)

lemma initConnection_p0_eq: "initConnection_p0 env c t = initConnection env c t"
  unfolding initConnection_p0_def initConnection_def dbusPath_p0_def dbusPath_def
  by (rule refl)

lemma New_p0_eq: "New_p0 env t = New env t"
  unfolding New_p0_def New_def initConnection_p0_eq by (rule refl)

lemma GetProperties_bound:
  "object c = Some ob \<Longrightarrow>
   GetProperties env c t =
     (let call = Call env t ob ''org.freedesktop.DBus.Properties.GetAll'' 0
                   [GoString ''org.freedesktop.hostname1''];
          t' = t @ [EvCall ob ''org.freedesktop.DBus.Properties.GetAll'' 0
                      [GoString ''org.freedesktop.hostname1''] call]
      in case StoreProps env call of
           Inl err \<Rightarrow> Returns ((None, Some err), c, t')
         | Inr props \<Rightarrow> Returns ((Some (rangeLoop props Map.empty), None), c, t'))"
  by (simp add: GetProperties_def object_Call_def dbusInterface_def Let_def)

lemma GetProperty_bound:
  "object c = Some ob \<Longrightarrow>
   GetProperty env c propertyName t =
     (let call = Call env t ob ''org.freedesktop.DBus.Properties.Get'' 0
                   [GoString ''org.freedesktop.hostname1'', GoString propertyName];
          t' = t @ [EvCall ob ''org.freedesktop.DBus.Properties.Get'' 0
                      [GoString ''org.freedesktop.hostname1'', GoString propertyName] call]
      in case StoreVariant env call of
           Inl err \<Rightarrow> Returns ((GoNil, Some err), c, t')
         | Inr prop \<Rightarrow> Returns ((Value prop, None), c, t'))"
  by (simp add: GetProperty_def object_Call_def dbusInterface_def Let_def)

lemma assertString_ok: "assertString v = (s, True) \<longleftrightarrow> v = GoString s"
  by (cases v) auto

lemma assertString_fails: "snd (assertString v) = False \<longleftrightarrow> (\<forall>s. v \<noteq> GoString s)"
  by (cases v) auto

lemma coerceString_assert:
  "coerceString (hn, err) =
     (if err \<noteq> None then ('''', err)
      else if \<not> snd (assertString hn)
           then ('''', Some (Errorf (''hostname has incorrect type: '' @ fmtT hn)))
           else (fst (assertString hn), None))"
  by (cases hn) (auto simp: coerceString_def)

lemma GetHostname_coerce:
  "GetHostname env c t =
     (case GetProperty env c ''Hostname'' t of
        Panics \<Rightarrow> Panics
      | Returns (r, c', t') \<Rightarrow> Returns (coerceString r, c', t'))"
  by (auto simp: GetHostname_def coerceString_assert case_prod_beta
           split: outcome.splits prod.splits)

lemma GetStaticHostname_coerce:
  "GetStaticHostname env c t =
     (case GetProperty env c ''StaticHostname'' t of
        Panics \<Rightarrow> Panics
      | Returns (r, c', t') \<Rightarrow> Returns (coerceString r, c', t'))"
  by (auto simp: GetStaticHostname_def coerceString_assert case_prod_beta
           split: outcome.splits prod.splits)

lemma fmtT_string: "fmtT v = ''string'' \<longleftrightarrow> (\<exists>s. v = GoString s)"
  by (cases v) (auto simp: fmtT_def)

lemma rangeLoop_other: "k \<notin> fst ` set props \<Longrightarrow> rangeLoop props out k = out k"
proof (induction props arbitrary: out)
  case Nil
  show ?case by simp
next
  case (Cons e props)
  obtain k' v' where e: "e = (k', v')" by (cases e)
  from Cons.prems e have neq: "k \<noteq> k'" and notin: "k \<notin> fst ` set props" by auto
  from notin have "rangeLoop props (out(k' \<mapsto> Value v')) k = (out(k' \<mapsto> Value v')) k"
    by (rule Cons.IH)
  also from neq have "\<dots> = out k" by simp
  finally show ?case unfolding e rangeLoop.simps .
qed

lemma dom_rangeLoop: "dom (rangeLoop props out) = dom out \<union> fst ` set props"
proof (induction props arbitrary: out)
  case Nil
  show ?case by simp
next
  case (Cons e props)
  obtain k' v' where e: "e = (k', v')" by (cases e)
  have "dom (rangeLoop props (out(k' \<mapsto> Value v'))) =
        dom (out(k' \<mapsto> Value v')) \<union> fst ` set props"
    by (rule Cons.IH)
  also have "\<dots> = dom out \<union> fst ` set ((k', v') # props)" by auto
  finally show ?case unfolding e rangeLoop.simps .
qed

lemma rangeLoop_entry:
  "distinct (map fst props) \<Longrightarrow> (k, v) \<in> set props \<Longrightarrow>
   rangeLoop props out k = Some (Value v)"
proof (induction props arbitrary: out)
  case Nil
  then show ?case by simp
next
  case (Cons e props)
  obtain k' v' where e: "e = (k', v')" by (cases e)
  have "rangeLoop props (out(k' \<mapsto> Value v')) k = Some (Value v)"
  proof (cases "(k, v) = (k', v')")
    case True
    from Cons.prems e have "k' \<notin> fst ` set props" by auto
    with True have "k \<notin> fst ` set props" by simp
    then have "rangeLoop props (out(k' \<mapsto> Value v')) k = (out(k' \<mapsto> Value v')) k"
      by (rule rangeLoop_other)
    also from True have "\<dots> = Some (Value v)" by simp
    finally show ?thesis .
  next
    case False
    with Cons.prems e have "distinct (map fst props)" and "(k, v) \<in> set props" by auto
    then show ?thesis by (rule Cons.IH)
  qed
  then show ?case unfolding e rangeLoop.simps .
qed

lemma digit_cases:
  "d < 10 \<Longrightarrow>
   d = 0 \<or> d = 1 \<or> d = 2 \<or> d = 3 \<or> d = 4 \<or> d = 5 \<or> d = 6 \<or> d = 7 \<or> d = 8 \<or> d = (9::nat)"
  by arith

lemma digitVal_digitChar: "d < 10 \<Longrightarrow> digitVal (digitChar d) = d"
  using digit_cases [of d] by (elim meta_impE disjE) (simp_all add: digitVal_def digitChar_def)

lemma digitChar_digit: "d < 10 \<Longrightarrow> digitChar d \<in> set ''0123456789''"
  unfolding digitChar_def by (rule nth_mem) simp

lemma decimalValue_snoc:
  "decimalValue (s @ [ch]) acc = 10 * decimalValue s acc + digitVal ch"
  by (induction s acc rule: decimalValue.induct) simp_all

lemma formatUint_digits: "set (formatUint n) \<subseteq> set ''0123456789''"
proof (induction n rule: formatUint.induct)
  case (1 n)
  show ?case
  proof (cases "n < 10")
    case True
    then show ?thesis using digitChar_digit [of n] by (subst formatUint.simps) simp
  next
    case False
    have "n mod 10 < 10" by simp
    then have "digitChar (n mod 10) \<in> set ''0123456789''" by (rule digitChar_digit)
    with False "1.IH" show ?thesis by (subst formatUint.simps) simp
  qed
qed

lemma formatUint_value: "decimalValue (formatUint n) 0 = n"
proof (induction n rule: formatUint.induct)
  case (1 n)
  show ?case
  proof (cases "n < 10")
    case True
    then show ?thesis by (subst formatUint.simps) (simp add: digitVal_digitChar)
  next
    case False
    with "1.IH" show ?thesis
      by (subst formatUint.simps) (simp add: decimalValue_snoc digitVal_digitChar)
  qed
qed

lemma Itoa_decimal:
  "0 \<le> i \<Longrightarrow> set (Itoa i) \<subseteq> set ''0123456789'' \<and> decimalValue (Itoa i) 0 = nat i"
  using formatUint_digits [of "nat i"] by (simp add: Itoa_def formatUint_value)

lemma SetHostname_bound:
  "object c = Some ob \<Longrightarrow>
   SetHostname env c name askForAuth t =
     (let call = Call env t ob ''org.freedesktop.hostname1.SetHostname'' 0
                   [GoString name, GoBool askForAuth]
      in Returns (Err call, c,
                  t @ [EvCall ob ''org.freedesktop.hostname1.SetHostname'' 0
                         [GoString name, GoBool askForAuth] call]))"
  by (simp add: SetHostname_def object_Call_def dbusInterface_def Let_def)

lemma SetStaticHostname_bound:
  "object c = Some ob \<Longrightarrow>
   SetStaticHostname env c name askForAuth t =
     (let call = Call env t ob ''org.freedesktop.hostname1.SetStaticHostname'' 0
                   [GoString name, GoBool askForAuth]
      in Returns (Err call, c,
                  t @ [EvCall ob ''org.freedesktop.hostname1.SetStaticHostname'' 0
                         [GoString name, GoBool askForAuth] call]))"
  by (simp add: SetStaticHostname_def object_Call_def dbusInterface_def Let_def)

lemma SetPrettyHostname_bound:
  "object c = Some ob \<Longrightarrow>
   SetPrettyHostname env c name askForAuth t =
     (let call = Call env t ob ''org.freedesktop.hostname1.SetPrettyHostname'' 0
                   [GoString name, GoBool askForAuth]
      in Returns (Err call, c,
                  t @ [EvCall ob ''org.freedesktop.hostname1.SetPrettyHostname'' 0
                         [GoString name, GoBool askForAuth] call]))"
  by (simp add: SetPrettyHostname_def object_Call_def dbusInterface_def Let_def)

lemma SetIconName_bound:
  "object c = Some ob \<Longrightarrow>
   SetIconName env c name askForAuth t =
     (let call = Call env t ob ''org.freedesktop.hostname1.SetIconName'' 0
                   [GoString name, GoBool askForAuth]
      in Returns (Err call, c,
                  t @ [EvCall ob ''org.freedesktop.hostname1.SetIconName'' 0
                         [GoString name, GoBool askForAuth] call]))"
  by (simp add: SetIconName_def object_Call_def dbusInterface_def Let_def)

lemma SetChassis_bound:
  "object c = Some ob \<Longrightarrow>
   SetChassis env c name askForAuth t =
     (let call = Call env t ob ''org.freedesktop.hostname1.SetChassis'' 0
                   [GoString name, GoBool askForAuth]
      in Returns (Err call, c,
                  t @ [EvCall ob ''org.freedesktop.hostname1.SetChassis'' 0
                         [GoString name, GoBool askForAuth] call]))"
  by (simp add: SetChassis_def object_Call_def dbusInterface_def Let_def)

lemma SetHostname_p0_bound:
  "object c = Some ob \<Longrightarrow>
   SetHostname_p0 env c name askForAuth t =
     (let call = Call env t ob ''org.freedesktop.hostname1.SetHostname'' 0
                   [GoString name, GoBool askForAuth]
      in Returns (Err call, c,
                  t @ [EvCall ob ''org.freedesktop.hostname1.SetHostname'' 0
                         [GoString name, GoBool askForAuth] call]))"
  by (simp add: SetHostname_p0_def object_Call_def dbusInterface_p0_def Let_def)

lemma SetStaticHostname_p0_bound:
  "object c = Some ob \<Longrightarrow>
   SetStaticHostname_p0 env c name askForAuth t =
     (let call = Call env t ob ''org.freedesktop.hostname1.SetStaticHostname'' 0
                   [GoString name, GoBool askForAuth]
      in Returns (Err call, c,
                  t @ [EvCall ob ''org.freedesktop.hostname1.SetStaticHostname'' 0
                         [GoString name, GoBool askForAuth] call]))"
  by (simp add: SetStaticHostname_p0_def object_Call_def dbusInterface_p0_def Let_def)

lemma SetPrettyHostname_p0_bound:
  "object c = Some ob \<Longrightarrow>
   SetPrettyHostname_p0 env c name askForAuth t =
     (let call = Call env t ob ''org.freedesktop.hostname1.SetPrettyHostname'' 0
                   [GoString name, GoBool askForAuth]
      in Returns (Err call, c,
                  t @ [EvCall ob ''org.freedesktop.hostname1.SetPrettyHostname'' 0
                         [GoString name, GoBool askForAuth] call]))"
  by (simp add: SetPrettyHostname_p0_def object_Call_def dbusInterface_p0_def Let_def)

lemma SetIconName_p0_bound:
  "object c = Some ob \<Longrightarrow>
   SetIconName_p0 env c name askForAuth t =
     (let call = Call env t ob ''org.freedesktop.hostname1.SetIconName'' 0
                   [GoString name, GoBool askForAuth]
      in Returns (Err call, c,
                  t @ [EvCall ob ''org.freedesktop.hostname1.SetIconName'' 0
                         [GoString name, GoBool askForAuth] call]))"
  by (simp add: SetIconName_p0_def object_Call_def dbusInterface_p0_def Let_def)

lemma SetChassis_p0_bound:
  "object c = Some ob \<Longrightarrow>
   SetChassis_p0 env c name askForAuth t =
     (let call = Call env t ob ''org.freedesktop.hostname1.SetChassis'' 0
                   [GoString name, GoBool askForAuth]
      in Returns (Err call, c,
                  t @ [EvCall ob ''org.freedesktop.hostname1.SetChassis'' 0
                         [GoString name, GoBool askForAuth] call]))"
  by (simp add: SetChassis_p0_def object_Call_def dbusInterface_p0_def Let_def)


section \<open>The claims\<close>

text \<open>
  C8. The operations of the setters-only file give the same result, the same adapter and
  the same trace of bus operations as the operations of the same name in
  \<^verbatim>\<open>hostname1/dbus.go\<close>, on every bus, adapter, argument and earlier trace. Both
  files are run against the same bus library here.
\<close>

theorem variants_agree:
  "New_p0 env t = New env t \<and>
   initConnection_p0 env c t = initConnection env c t \<and>
   SetHostname_p0 env c name askForAuth t = SetHostname env c name askForAuth t \<and>
   SetStaticHostname_p0 env c name askForAuth t = SetStaticHostname env c name askForAuth t \<and>
   SetPrettyHostname_p0 env c name askForAuth t = SetPrettyHostname env c name askForAuth t \<and>
   SetIconName_p0 env c name askForAuth t = SetIconName env c name askForAuth t \<and>
   SetChassis_p0 env c name askForAuth t = SetChassis env c name askForAuth t"
  unfolding dbusInterface_p0_def dbusInterface_def
    SetHostname_p0_def SetHostname_def SetStaticHostname_p0_def SetStaticHostname_def SetPrettyHostname_p0_def SetPrettyHostname_def SetIconName_p0_def SetIconName_def SetChassis_p0_def SetChassis_def
  by (simp add: New_p0_eq initConnection_p0_eq)

text \<open>
  C2. On an adapter whose object is bound, each of the five setters, in either file,
  returns after adding exactly one event to the trace: a call on the bound object of the
  method \<^verbatim>\<open>org.freedesktop.hostname1.\<close> followed by the setter's name, with flags 0 and
  the two arguments \<open>name\<close>, \<open>askForAuth\<close> in this order.
\<close>

theorem setters_issue_one_call:
  assumes "object c = Some ob"
  shows
   "(\<exists>r call. SetHostname env c name askForAuth t =
       Returns (r, c, t @ [EvCall ob ''org.freedesktop.hostname1.SetHostname'' 0
                             [GoString name, GoBool askForAuth] call])) \<and>
    (\<exists>r call. SetStaticHostname env c name askForAuth t =
       Returns (r, c, t @ [EvCall ob ''org.freedesktop.hostname1.SetStaticHostname'' 0
                             [GoString name, GoBool askForAuth] call])) \<and>
    (\<exists>r call. SetPrettyHostname env c name askForAuth t =
       Returns (r, c, t @ [EvCall ob ''org.freedesktop.hostname1.SetPrettyHostname'' 0
                             [GoString name, GoBool askForAuth] call])) \<and>
    (\<exists>r call. SetIconName env c name askForAuth t =
       Returns (r, c, t @ [EvCall ob ''org.freedesktop.hostname1.SetIconName'' 0
                             [GoString name, GoBool askForAuth] call])) \<and>
    (\<exists>r call. SetChassis env c name askForAuth t =
       Returns (r, c, t @ [EvCall ob ''org.freedesktop.hostname1.SetChassis'' 0
                             [GoString name, GoBool askForAuth] call])) \<and>
    (\<exists>r call. SetHostname_p0 env c name askForAuth t =
       Returns (r, c, t @ [EvCall ob ''org.freedesktop.hostname1.SetHostname'' 0
                             [GoString name, GoBool askForAuth] call])) \<and>
    (\<exists>r call. SetStaticHostname_p0 env c name askForAuth t =
       Returns (r, c, t @ [EvCall ob ''org.freedesktop.hostname1.SetStaticHostname'' 0
                             [GoString name, GoBool askForAuth] call])) \<and>
    (\<exists>r call. SetPrettyHostname_p0 env c name askForAuth t =
       Returns (r, c, t @ [EvCall ob ''org.freedesktop.hostname1.SetPrettyHostname'' 0
                             [GoString name, GoBool askForAuth] call])) \<and>
    (\<exists>r call. SetIconName_p0 env c name askForAuth t =
       Returns (r, c, t @ [EvCall ob ''org.freedesktop.hostname1.SetIconName'' 0
                             [GoString name, GoBool askForAuth] call])) \<and>
    (\<exists>r call. SetChassis_p0 env c name askForAuth t =
       Returns (r, c, t @ [EvCall ob ''org.freedesktop.hostname1.SetChassis'' 0
                             [GoString name, GoBool askForAuth] call]))"
  using assms
  by (simp add: SetHostname_bound SetStaticHostname_bound SetPrettyHostname_bound SetIconName_bound SetChassis_bound SetHostname_p0_bound SetStaticHostname_p0_bound SetPrettyHostname_p0_bound SetIconName_p0_bound SetChassis_p0_bound Let_def)

theorem setters_issue_one_call_witness:
  "object stubConn = Some 7 \<and>
   SetStaticHostname stubBus stubConn ''build-42'' False [] =
     Returns (None, stubConn,
              [EvCall 7 ''org.freedesktop.hostname1.SetStaticHostname'' 0
                 [GoString ''build-42'', GoBool False] \<lparr>Err = None, Body = []\<rparr>])"
proof -
  have bound: "object stubConn = Some 7" by (simp add: stubConn_def)
  from setters_issue_one_call [OF bound, of stubBus "''build-42''" False "[]"] bound
  show ?thesis
    by (auto simp: SetStaticHostname_bound Let_def stubBus_def stubCall_def)
qed


lemma New_connect_fails:
  "SystemBusPrivate env t = (p, Some e) \<Longrightarrow>
   New env t = ((None, Some e), t @ [EvSystemBusPrivate p (Some e)])"
  by (simp add: New_unfold Let_def)

lemma New_auth_fails:
  "SystemBusPrivate env t = (p, None) \<Longrightarrow>
   Auth env (t @ [EvSystemBusPrivate p None]) p
     [AuthExternal (Itoa (Getuid env (t @ [EvSystemBusPrivate p None])))] = Some e \<Longrightarrow>
   New env t =
     ((None, Some e),
      t @ [EvSystemBusPrivate p None,
           EvAuth p [AuthExternal (Itoa (Getuid env (t @ [EvSystemBusPrivate p None])))] (Some e),
           EvClose p
             (CloseConn env
                (t @ [EvSystemBusPrivate p None,
                      EvAuth p [AuthExternal (Itoa (Getuid env (t @ [EvSystemBusPrivate p None])))]
                        (Some e)]) p)])"
  by (simp add: New_unfold Let_def)

lemma New_hello_fails:
  "SystemBusPrivate env t = (p, None) \<Longrightarrow>
   Auth env (t @ [EvSystemBusPrivate p None]) p
     [AuthExternal (Itoa (Getuid env (t @ [EvSystemBusPrivate p None])))] = None \<Longrightarrow>
   Hello env
     (t @ [EvSystemBusPrivate p None,
           EvAuth p [AuthExternal (Itoa (Getuid env (t @ [EvSystemBusPrivate p None])))] None])
     p = Some e \<Longrightarrow>
   New env t =
     ((None, Some e),
      t @ [EvSystemBusPrivate p None,
           EvAuth p [AuthExternal (Itoa (Getuid env (t @ [EvSystemBusPrivate p None])))] None,
           EvHello p (Some e),
           EvClose p
             (CloseConn env
                (t @ [EvSystemBusPrivate p None,
                      EvAuth p [AuthExternal (Itoa (Getuid env (t @ [EvSystemBusPrivate p None])))]
                        None,
                      EvHello p (Some e)]) p)])"
  by (simp add: New_unfold Let_def)

lemma New_succeeds:
  "SystemBusPrivate env t = (p, None) \<Longrightarrow>
   Auth env (t @ [EvSystemBusPrivate p None]) p
     [AuthExternal (Itoa (Getuid env (t @ [EvSystemBusPrivate p None])))] = None \<Longrightarrow>
   Hello env
     (t @ [EvSystemBusPrivate p None,
           EvAuth p [AuthExternal (Itoa (Getuid env (t @ [EvSystemBusPrivate p None])))] None])
     p = None \<Longrightarrow>
   New env t =
     ((Some \<lparr>conn = p,
             object = Object env
               (t @ [EvSystemBusPrivate p None,
                     EvAuth p [AuthExternal (Itoa (Getuid env (t @ [EvSystemBusPrivate p None])))]
                       None,
                     EvHello p None])
               p ''org.freedesktop.hostname1'' ''/org/freedesktop/hostname1''\<rparr>, None),
      t @ [EvSystemBusPrivate p None,
           EvAuth p [AuthExternal (Itoa (Getuid env (t @ [EvSystemBusPrivate p None])))] None,
           EvHello p None,
           EvObject p ''org.freedesktop.hostname1'' ''/org/freedesktop/hostname1''
             (Object env
               (t @ [EvSystemBusPrivate p None,
                     EvAuth p [AuthExternal (Itoa (Getuid env (t @ [EvSystemBusPrivate p None])))]
                       None,
                     EvHello p None])
               p ''org.freedesktop.hostname1'' ''/org/freedesktop/hostname1'')])"
  by (simp add: New_unfold Let_def)

text \<open>
  C1. Whatever the bus answers, \<^verbatim>\<open>New\<close> only adds events to the trace, and the error
  it returns is the first error among \<^verbatim>\<open>SystemBusPrivate\<close>, \<^verbatim>\<open>Auth\<close> and
  \<^verbatim>\<open>Hello\<close>. If that error is not nil, the adapter returned is nil and every
  connection the call opened has been closed by the time it returns. If it is nil, the
  adapter holds the connection that was opened, authenticated and greeted, and the object
  bound on it, and nothing was closed.
\<close>

theorem New_fails_cleanly:
  assumes "New env t = ((adapter, err), t')"
  shows "\<exists>evs. t' = t @ evs \<and> err = first_error evs \<and>
           (err \<noteq> None \<longrightarrow> adapter = None \<and> open_conns evs [] = []) \<and>
           (err = None \<longrightarrow>
              (\<exists>p ob. adapter = Some \<lparr>conn = p, object = ob\<rparr> \<and>
                 evs = [EvSystemBusPrivate p None,
                        EvAuth p [AuthExternal
                                    (Itoa (Getuid env (t @ [EvSystemBusPrivate p None])))] None,
                        EvHello p None,
                        EvObject p ''org.freedesktop.hostname1''
                          ''/org/freedesktop/hostname1'' ob]))"
proof -
  obtain p r where sb: "SystemBusPrivate env t = (p, r)"
    by (cases "SystemBusPrivate env t")
  let ?t1 = "t @ [EvSystemBusPrivate p None]"
  let ?methods = "[AuthExternal (Itoa (Getuid env ?t1))]"
  let ?t2 = "t @ [EvSystemBusPrivate p None, EvAuth p ?methods None]"
  show ?thesis
  proof (cases r)
    case (Some e)
    with sb have "New env t = ((None, Some e), t @ [EvSystemBusPrivate p (Some e)])"
      by (simp add: New_connect_fails)
    then have "((adapter, err), t') = ((None, Some e), t @ [EvSystemBusPrivate p (Some e)])"
      unfolding assms .
    then have "adapter = None" "err = Some e" "t' = t @ [EvSystemBusPrivate p (Some e)]"
      by simp_all
    then show ?thesis by simp
  next
    case None
    with sb have connected: "SystemBusPrivate env t = (p, None)" by simp
    show ?thesis
    proof (cases "Auth env ?t1 p ?methods")
      case (Some e)
      from New_auth_fails [OF connected Some]
      have "((adapter, err), t') =
              ((None, Some e),
               t @ [EvSystemBusPrivate p None, EvAuth p ?methods (Some e),
                    EvClose p (CloseConn env
                      (t @ [EvSystemBusPrivate p None, EvAuth p ?methods (Some e)]) p)])"
        unfolding assms .
      then have "adapter = None" "err = Some e"
        "t' = t @ [EvSystemBusPrivate p None, EvAuth p ?methods (Some e),
                   EvClose p (CloseConn env
                     (t @ [EvSystemBusPrivate p None, EvAuth p ?methods (Some e)]) p)]"
        by simp_all
      then show ?thesis by simp
    next
      case None
      note authenticated = this
      show ?thesis
      proof (cases "Hello env ?t2 p")
        case (Some e)
        from New_hello_fails [OF connected authenticated Some]
        have "((adapter, err), t') =
                ((None, Some e),
                 t @ [EvSystemBusPrivate p None, EvAuth p ?methods None, EvHello p (Some e),
                      EvClose p (CloseConn env
                        (t @ [EvSystemBusPrivate p None, EvAuth p ?methods None,
                              EvHello p (Some e)]) p)])"
          unfolding assms .
        then have "adapter = None" "err = Some e"
          "t' = t @ [EvSystemBusPrivate p None, EvAuth p ?methods None, EvHello p (Some e),
                     EvClose p (CloseConn env
                       (t @ [EvSystemBusPrivate p None, EvAuth p ?methods None,
                             EvHello p (Some e)]) p)]"
          by simp_all
        then show ?thesis by simp
      next
        case None
        let ?ob = "Object env
                     (t @ [EvSystemBusPrivate p None, EvAuth p ?methods None, EvHello p None])
                     p ''org.freedesktop.hostname1'' ''/org/freedesktop/hostname1''"
        from New_succeeds [OF connected authenticated None]
        have "((adapter, err), t') =
                ((Some \<lparr>conn = p, object = ?ob\<rparr>, None),
                 t @ [EvSystemBusPrivate p None, EvAuth p ?methods None, EvHello p None,
                      EvObject p ''org.freedesktop.hostname1'' ''/org/freedesktop/hostname1''
                        ?ob])"
          unfolding assms .
        then have "adapter = Some \<lparr>conn = p, object = ?ob\<rparr>" "err = None"
          "t' = t @ [EvSystemBusPrivate p None, EvAuth p ?methods None, EvHello p None,
                     EvObject p ''org.freedesktop.hostname1'' ''/org/freedesktop/hostname1''
                       ?ob]"
          by simp_all
        then show ?thesis by simp
      qed
    qed
  qed
qed

theorem New_fails_cleanly_witness:
  "New (stubBus\<lparr>Hello := (\<lambda>t p. Some (BusError ''rejected''))\<rparr>) [] =
     ((None, Some (BusError ''rejected'')),
      [EvSystemBusPrivate (Some 1) None, EvAuth (Some 1) [AuthExternal ''1000''] None,
       EvHello (Some 1) (Some (BusError ''rejected'')), EvClose (Some 1) None]) \<and>
   open_conns [EvSystemBusPrivate (Some 1) None, EvAuth (Some 1) [AuthExternal ''1000''] None,
               EvHello (Some 1) (Some (BusError ''rejected'')), EvClose (Some 1) None] [] = [] \<and>
   New stubBus [] =
     ((Some \<lparr>conn = Some 1, object = Some 7\<rparr>, None),
      [EvSystemBusPrivate (Some 1) None, EvAuth (Some 1) [AuthExternal ''1000''] None,
       EvHello (Some 1) None,
       EvObject (Some 1) ''org.freedesktop.hostname1'' ''/org/freedesktop/hostname1'' (Some 7)])"
proof -
  have run: "New (stubBus\<lparr>Hello := (\<lambda>t p. Some (BusError ''rejected''))\<rparr>) [] =
     ((None, Some (BusError ''rejected'')),
      [EvSystemBusPrivate (Some 1) None, EvAuth (Some 1) [AuthExternal ''1000''] None,
       EvHello (Some 1) (Some (BusError ''rejected'')), EvClose (Some 1) None])"
    by (simp add: New_unfold stubBus_def Itoa_def formatUint.simps digitChar_def Let_def)
  from New_fails_cleanly [OF run] run
  have failure: "open_conns [EvSystemBusPrivate (Some 1) None,
                   EvAuth (Some 1) [AuthExternal ''1000''] None,
                   EvHello (Some 1) (Some (BusError ''rejected'')), EvClose (Some 1) None] [] = []"
    by simp
  obtain adapter t' where ok: "New stubBus [] = ((adapter, None), t')"
    by (simp add: New_unfold stubBus_def Let_def)
  have uid: "Itoa (Getuid stubBus ([] @ [EvSystemBusPrivate p None])) = ''1000''" for p
    by (simp add: stubBus_def Itoa_def formatUint.simps digitChar_def)
  have handles: "fst (fst (New stubBus [])) = Some \<lparr>conn = Some 1, object = Some 7\<rparr>"
    by (simp add: New_unfold stubBus_def Let_def)
  from New_fails_cleanly [OF ok] obtain p ob where
    "adapter = Some \<lparr>conn = p, object = ob\<rparr>"
    "t' = [EvSystemBusPrivate p None,
           EvAuth p [AuthExternal (Itoa (Getuid stubBus ([] @ [EvSystemBusPrivate p None])))] None,
           EvHello p None,
           EvObject p ''org.freedesktop.hostname1'' ''/org/freedesktop/hostname1'' ob]"
    by auto
  with ok handles uid have success: "New stubBus [] =
     ((Some \<lparr>conn = Some 1, object = Some 7\<rparr>, None),
      [EvSystemBusPrivate (Some 1) None, EvAuth (Some 1) [AuthExternal ''1000''] None,
       EvHello (Some 1) None,
       EvObject (Some 1) ''org.freedesktop.hostname1'' ''/org/freedesktop/hostname1'' (Some 7)])"
    by simp
  from run failure success show ?thesis by blast
qed

text \<open>
  C7. In both files \<^verbatim>\<open>New\<close> calls \<^verbatim>\<open>Auth\<close> at most once: not at all when no
  connection could be opened, and otherwise with the one-element list holding the
  EXTERNAL mechanism, whose identity is \<^verbatim>\<open>strconv.Itoa\<close> of the user id the operating
  system reports. For a user id that is not negative this string consists of decimal
  digits only and its decimal value is the user id.
\<close>

theorem New_authenticates_external_uid:
  "auth_methods (drop (length t) (snd (New env t))) =
     (if snd (SystemBusPrivate env t) = None
      then [[AuthExternal (Itoa (Getuid env (t @ [EvSystemBusPrivate
                                                     (fst (SystemBusPrivate env t)) None])))]]
      else []) \<and>
   auth_methods (drop (length t) (snd (New_p0 env t))) =
     auth_methods (drop (length t) (snd (New env t))) \<and>
   (0 \<le> uid \<longrightarrow> set (Itoa uid) \<subseteq> set ''0123456789'' \<and> decimalValue (Itoa uid) 0 = nat uid)"
  using Itoa_decimal [of uid]
  by (simp add: New_p0_eq New_unfold Let_def)

theorem New_authenticates_external_uid_witness:
  "auth_methods (snd (New stubBus [])) = [[AuthExternal ''1000'']] \<and>
   (0::int) \<le> 1000 \<and> Itoa 1000 = ''1000'' \<and> decimalValue ''1000'' 0 = 1000"
proof -
  have rendering: "Itoa 1000 = ''1000''"
    by (simp add: Itoa_def formatUint.simps digitChar_def)
  from New_authenticates_external_uid [of "[]" stubBus 1000] rendering show ?thesis
    by (simp add: stubBus_def)
qed

text \<open>
  C10. Whenever \<^verbatim>\<open>GetHostname\<close> or \<^verbatim>\<open>GetStaticHostname\<close> returns an error that is
  not nil, the string it returns with it is the empty string.
\<close>

theorem typed_getters_error_empty_string:
  "(GetHostname env c t = Returns ((s, Some e), c', t') \<longrightarrow> s = '''') \<and>
   (GetStaticHostname env c t = Returns ((s, Some e), c', t') \<longrightarrow> s = '''')"
  by (auto simp: GetHostname_coerce GetStaticHostname_coerce coerceString_assert
           split: outcome.splits prod.splits if_splits)

theorem typed_getters_error_empty_string_witness:
  "GetHostname (stubBus\<lparr>StoreVariant := (\<lambda>call. Inl (BusError ''no reply''))\<rparr>) stubConn [] =
     Returns (('''', Some (BusError ''no reply'')), stubConn,
              [EvCall 7 ''org.freedesktop.DBus.Properties.Get'' 0
                 [GoString ''org.freedesktop.hostname1'', GoString ''Hostname'']
                 \<lparr>Err = None, Body = [GoVariant (Variant ''s'' (GoString ''node-1''))]\<rparr>]) \<and>
   GetStaticHostname stubBus stubConn [] =
     Returns (('''', Some (Errorf ''hostname has incorrect type: int32'')), stubConn,
              [EvCall 7 ''org.freedesktop.DBus.Properties.Get'' 0
                 [GoString ''org.freedesktop.hostname1'', GoString ''StaticHostname'']
                 \<lparr>Err = None, Body = [GoVariant (Variant ''i'' (GoInt32 42))]\<rparr>])"
proof -
  have bound: "object stubConn = Some 7" by (simp add: stubConn_def)
  have dyn: "GetHostname (stubBus\<lparr>StoreVariant := (\<lambda>call. Inl (BusError ''no reply''))\<rparr>)
               stubConn [] =
     Returns (('''', Some (BusError ''no reply'')), stubConn,
              [EvCall 7 ''org.freedesktop.DBus.Properties.Get'' 0
                 [GoString ''org.freedesktop.hostname1'', GoString ''Hostname'']
                 \<lparr>Err = None, Body = [GoVariant (Variant ''s'' (GoString ''node-1''))]\<rparr>])"
    by (simp add: GetHostname_coerce GetProperty_bound [OF bound] coerceString_def Let_def
        stubBus_def stubCall_def)
  have static: "\<exists>s. GetStaticHostname stubBus stubConn [] =
     Returns ((s, Some (Errorf ''hostname has incorrect type: int32'')), stubConn,
              [EvCall 7 ''org.freedesktop.DBus.Properties.Get'' 0
                 [GoString ''org.freedesktop.hostname1'', GoString ''StaticHostname'']
                 \<lparr>Err = None, Body = [GoVariant (Variant ''i'' (GoInt32 42))]\<rparr>])"
    by (simp add: GetStaticHostname_coerce GetProperty_bound [OF bound] coerceString_def
        Let_def stubBus_def stubCall_def stubStoreVariant_def fmtT_def)
  then obtain s where run: "GetStaticHostname stubBus stubConn [] =
     Returns ((s, Some (Errorf ''hostname has incorrect type: int32'')), stubConn,
              [EvCall 7 ''org.freedesktop.DBus.Properties.Get'' 0
                 [GoString ''org.freedesktop.hostname1'', GoString ''StaticHostname'']
                 \<lparr>Err = None, Body = [GoVariant (Variant ''i'' (GoInt32 42))]\<rparr>])"
    by blast
  with typed_getters_error_empty_string
         [of stubBus stubConn "[]" s "Errorf ''hostname has incorrect type: int32''"]
  have "s = ''''" by blast
  with run dyn show ?thesis by simp
qed


text \<open>
  C3. When the property value that \<^verbatim>\<open>GetProperty\<close> hands to \<^verbatim>\<open>GetHostname\<close> or
  \<^verbatim>\<open>GetStaticHostname\<close> comes without error and is not a Go string, the getter returns
  the empty string together with the error built by \<^verbatim>\<open>fmt.Errorf\<close> whose message ends
  in the name of the value's dynamic type as \<^verbatim>\<open>%T\<close> prints it; that name is not
  \<^verbatim>\<open>string\<close>, and the error is not nil.
\<close>

theorem typed_getters_reject_non_string:
  assumes "\<forall>s. hn \<noteq> GoString s"
  shows
   "(GetProperty env c ''Hostname'' t = Returns ((hn, None), c', t') \<longrightarrow>
       GetHostname env c t =
         Returns (('''', Some (Errorf (''hostname has incorrect type: '' @ fmtT hn))), c', t')) \<and>
    (GetProperty env c ''StaticHostname'' t = Returns ((hn, None), c', t') \<longrightarrow>
       GetStaticHostname env c t =
         Returns (('''', Some (Errorf (''hostname has incorrect type: '' @ fmtT hn))), c', t')) \<and>
    fmtT hn \<noteq> ''string''"
proof -
  from assms have "snd (assertString hn) = False"
    using assertString_fails [of hn] by simp
  then have "coerceString (hn, None) =
               ('''', Some (Errorf (''hostname has incorrect type: '' @ fmtT hn)))"
    by (simp add: coerceString_assert)
  moreover from assms have "fmtT hn \<noteq> ''string''"
    by (simp add: fmtT_string)
  ultimately show ?thesis
    by (simp add: GetHostname_coerce GetStaticHostname_coerce)
qed

theorem typed_getters_reject_non_string_witness:
  "(\<forall>s. GoInt32 42 \<noteq> GoString s) \<and>
   GetProperty (stubBus\<lparr>StoreVariant := (\<lambda>call. Inr (Variant ''i'' (GoInt32 42)))\<rparr>)
     stubConn ''Hostname'' [] =
     Returns ((GoInt32 42, None), stubConn,
              [EvCall 7 ''org.freedesktop.DBus.Properties.Get'' 0
                 [GoString ''org.freedesktop.hostname1'', GoString ''Hostname'']
                 \<lparr>Err = None, Body = [GoVariant (Variant ''s'' (GoString ''node-1''))]\<rparr>]) \<and>
   GetHostname (stubBus\<lparr>StoreVariant := (\<lambda>call. Inr (Variant ''i'' (GoInt32 42)))\<rparr>)
     stubConn [] =
     Returns (('''', Some (Errorf ''hostname has incorrect type: int32'')), stubConn,
              [EvCall 7 ''org.freedesktop.DBus.Properties.Get'' 0
                 [GoString ''org.freedesktop.hostname1'', GoString ''Hostname'']
                 \<lparr>Err = None, Body = [GoVariant (Variant ''s'' (GoString ''node-1''))]\<rparr>]) \<and>
   GetProperty stubBus stubConn ''StaticHostname'' [] =
     Returns ((GoInt32 42, None), stubConn,
              [EvCall 7 ''org.freedesktop.DBus.Properties.Get'' 0
                 [GoString ''org.freedesktop.hostname1'', GoString ''StaticHostname'']
                 \<lparr>Err = None, Body = [GoVariant (Variant ''i'' (GoInt32 42))]\<rparr>]) \<and>
   GetStaticHostname stubBus stubConn [] =
     Returns (('''', Some (Errorf ''hostname has incorrect type: int32'')), stubConn,
              [EvCall 7 ''org.freedesktop.DBus.Properties.Get'' 0
                 [GoString ''org.freedesktop.hostname1'', GoString ''StaticHostname'']
                 \<lparr>Err = None, Body = [GoVariant (Variant ''i'' (GoInt32 42))]\<rparr>])"
proof -
  let ?bus = "stubBus\<lparr>StoreVariant := (\<lambda>call. Inr (Variant ''i'' (GoInt32 42)))\<rparr>"
  have bound: "object stubConn = Some 7" by (simp add: stubConn_def)
  have other: "\<forall>s. GoInt32 42 \<noteq> GoString s" by simp
  have dyn: "GetProperty ?bus stubConn ''Hostname'' [] =
     Returns ((GoInt32 42, None), stubConn,
              [EvCall 7 ''org.freedesktop.DBus.Properties.Get'' 0
                 [GoString ''org.freedesktop.hostname1'', GoString ''Hostname'']
                 \<lparr>Err = None, Body = [GoVariant (Variant ''s'' (GoString ''node-1''))]\<rparr>])"
    by (simp add: GetProperty_bound [OF bound] Let_def stubBus_def stubCall_def)
  have static: "GetProperty stubBus stubConn ''StaticHostname'' [] =
     Returns ((GoInt32 42, None), stubConn,
              [EvCall 7 ''org.freedesktop.DBus.Properties.Get'' 0
                 [GoString ''org.freedesktop.hostname1'', GoString ''StaticHostname'']
                 \<lparr>Err = None, Body = [GoVariant (Variant ''i'' (GoInt32 42))]\<rparr>])"
    by (simp add: GetProperty_bound [OF bound] Let_def stubBus_def stubCall_def
        stubStoreVariant_def)
  have name: "fmtT (GoInt32 42) = ''int32''" by (simp add: fmtT_def)
  from typed_getters_reject_non_string [OF other, of ?bus stubConn "[]" stubConn] dyn name
  have one: "GetHostname ?bus stubConn [] =
     Returns (('''', Some (Errorf ''hostname has incorrect type: int32'')), stubConn,
              [EvCall 7 ''org.freedesktop.DBus.Properties.Get'' 0
                 [GoString ''org.freedesktop.hostname1'', GoString ''Hostname'']
                 \<lparr>Err = None, Body = [GoVariant (Variant ''s'' (GoString ''node-1''))]\<rparr>])"
    by simp
  from typed_getters_reject_non_string [OF other, of stubBus stubConn "[]" stubConn] static name
  have two: "GetStaticHostname stubBus stubConn [] =
     Returns (('''', Some (Errorf ''hostname has incorrect type: int32'')), stubConn,
              [EvCall 7 ''org.freedesktop.DBus.Properties.Get'' 0
                 [GoString ''org.freedesktop.hostname1'', GoString ''StaticHostname'']
                 \<lparr>Err = None, Body = [GoVariant (Variant ''i'' (GoInt32 42))]\<rparr>])"
    by simp
  from other dyn one static two show ?thesis by blast
qed

text \<open>
  C6. \<^verbatim>\<open>GetHostname\<close> is \<^verbatim>\<open>GetProperty\<close> of \<^verbatim>\<open>Hostname\<close> followed by string
  coercion of what it returned, and \<^verbatim>\<open>GetStaticHostname\<close> the same for
  \<^verbatim>\<open>StaticHostname\<close>; a panic of \<^verbatim>\<open>GetProperty\<close> is a panic of the getter. On a
  bound object whose reply to \<^verbatim>\<open>Get\<close> of \<^verbatim>\<open>Hostname\<close> decodes to a variant holding
  the string \<^verbatim>\<open>node-1\<close>, \<^verbatim>\<open>GetHostname\<close> returns \<^verbatim>\<open>node-1\<close> and a nil error.
\<close>

theorem GetHostname_coerces_GetProperty:
  "GetHostname env c t =
     (case GetProperty env c ''Hostname'' t of
        Panics \<Rightarrow> Panics
      | Returns (r, c', t') \<Rightarrow> Returns (coerceString r, c', t')) \<and>
   GetStaticHostname env c t =
     (case GetProperty env c ''StaticHostname'' t of
        Panics \<Rightarrow> Panics
      | Returns (r, c', t') \<Rightarrow> Returns (coerceString r, c', t')) \<and>
   (object c = Some ob \<and>
    StoreVariant env
      (Call env t ob ''org.freedesktop.DBus.Properties.Get'' 0
         [GoString ''org.freedesktop.hostname1'', GoString ''Hostname'']) =
      Inr (Variant sg (GoString ''node-1'')) \<longrightarrow>
    GetProperty env c ''Hostname'' t =
      Returns ((GoString ''node-1'', None), c,
               t @ [EvCall ob ''org.freedesktop.DBus.Properties.Get'' 0
                      [GoString ''org.freedesktop.hostname1'', GoString ''Hostname'']
                      (Call env t ob ''org.freedesktop.DBus.Properties.Get'' 0
                         [GoString ''org.freedesktop.hostname1'', GoString ''Hostname''])]) \<and>
    GetHostname env c t =
      Returns ((''node-1'', None), c,
               t @ [EvCall ob ''org.freedesktop.DBus.Properties.Get'' 0
                      [GoString ''org.freedesktop.hostname1'', GoString ''Hostname'']
                      (Call env t ob ''org.freedesktop.DBus.Properties.Get'' 0
                         [GoString ''org.freedesktop.hostname1'', GoString ''Hostname''])]))"
proof (intro conjI impI)
  show "GetHostname env c t =
     (case GetProperty env c ''Hostname'' t of
        Panics \<Rightarrow> Panics
      | Returns (r, c', t') \<Rightarrow> Returns (coerceString r, c', t'))"
    by (rule GetHostname_coerce)
  show "GetStaticHostname env c t =
     (case GetProperty env c ''StaticHostname'' t of
        Panics \<Rightarrow> Panics
      | Returns (r, c', t') \<Rightarrow> Returns (coerceString r, c', t'))"
    by (rule GetStaticHostname_coerce)
next
  assume stub: "object c = Some ob \<and>
    StoreVariant env
      (Call env t ob ''org.freedesktop.DBus.Properties.Get'' 0
         [GoString ''org.freedesktop.hostname1'', GoString ''Hostname'']) =
      Inr (Variant sg (GoString ''node-1''))"
  then have bound: "object c = Some ob" by simp
  from stub show fetch: "GetProperty env c ''Hostname'' t =
      Returns ((GoString ''node-1'', None), c,
               t @ [EvCall ob ''org.freedesktop.DBus.Properties.Get'' 0
                      [GoString ''org.freedesktop.hostname1'', GoString ''Hostname'']
                      (Call env t ob ''org.freedesktop.DBus.Properties.Get'' 0
                         [GoString ''org.freedesktop.hostname1'', GoString ''Hostname''])])"
    by (simp add: GetProperty_bound [OF bound] Let_def)
  show "GetHostname env c t =
      Returns ((''node-1'', None), c,
               t @ [EvCall ob ''org.freedesktop.DBus.Properties.Get'' 0
                      [GoString ''org.freedesktop.hostname1'', GoString ''Hostname'']
                      (Call env t ob ''org.freedesktop.DBus.Properties.Get'' 0
                         [GoString ''org.freedesktop.hostname1'', GoString ''Hostname''])])"
    by (simp add: GetHostname_coerce fetch coerceString_def)
qed

theorem GetHostname_coerces_GetProperty_witness:
  "object stubConn = Some 7 \<and>
   StoreVariant stubBus
      (Call stubBus [] 7 ''org.freedesktop.DBus.Properties.Get'' 0
         [GoString ''org.freedesktop.hostname1'', GoString ''Hostname'']) =
      Inr (Variant ''s'' (GoString ''node-1'')) \<and>
   GetHostname stubBus stubConn [] =
     Returns ((''node-1'', None), stubConn,
              [EvCall 7 ''org.freedesktop.DBus.Properties.Get'' 0
                 [GoString ''org.freedesktop.hostname1'', GoString ''Hostname'']
                 \<lparr>Err = None, Body = [GoVariant (Variant ''s'' (GoString ''node-1''))]\<rparr>])"
proof -
  have bound: "object stubConn = Some 7" by (simp add: stubConn_def)
  have reply: "Call stubBus [] 7 ''org.freedesktop.DBus.Properties.Get'' 0
         [GoString ''org.freedesktop.hostname1'', GoString ''Hostname''] =
       \<lparr>Err = None, Body = [GoVariant (Variant ''s'' (GoString ''node-1''))]\<rparr>"
    by (simp add: stubBus_def stubCall_def)
  have decoded: "StoreVariant stubBus
      (Call stubBus [] 7 ''org.freedesktop.DBus.Properties.Get'' 0
         [GoString ''org.freedesktop.hostname1'', GoString ''Hostname'']) =
      Inr (Variant ''s'' (GoString ''node-1''))"
    unfolding reply by (simp add: stubBus_def stubStoreVariant_def)
  from GetHostname_coerces_GetProperty [of stubBus stubConn "[]" 7 "''s''"] bound decoded
  have "GetHostname stubBus stubConn [] =
      Returns ((''node-1'', None), stubConn,
               [] @ [EvCall 7 ''org.freedesktop.DBus.Properties.Get'' 0
                      [GoString ''org.freedesktop.hostname1'', GoString ''Hostname'']
                      (Call stubBus [] 7 ''org.freedesktop.DBus.Properties.Get'' 0
                         [GoString ''org.freedesktop.hostname1'', GoString ''Hostname''])])"
    by blast
  with bound decoded reply show ?thesis by simp
qed


text \<open>
  C5. On a bound object, a setter whose remote call carries an error returns that very
  error; \<^verbatim>\<open>GetProperty\<close>, \<^verbatim>\<open>GetProperties\<close>, \<^verbatim>\<open>GetHostname\<close> and
  \<^verbatim>\<open>GetStaticHostname\<close> return the very error that \<^verbatim>\<open>Store\<close> reports for their
  remote call, next to a nil value, a nil map or an empty string. In each case the
  operation made one remote call and no second one.
\<close>

theorem remote_errors_returned_unchanged:
  assumes "object c = Some ob"
  shows
   "(Err (Call env t ob ''org.freedesktop.hostname1.SetHostname'' 0 [GoString name, GoBool askForAuth]) = Some e \<longrightarrow>
       (\<exists>t'. SetHostname env c name askForAuth t = Returns (Some e, c, t') \<and>
             length (remote_calls (drop (length t) t')) = 1)) \<and>
    (Err (Call env t ob ''org.freedesktop.hostname1.SetStaticHostname'' 0 [GoString name, GoBool askForAuth]) = Some e \<longrightarrow>
       (\<exists>t'. SetStaticHostname env c name askForAuth t = Returns (Some e, c, t') \<and>
             length (remote_calls (drop (length t) t')) = 1)) \<and>
    (Err (Call env t ob ''org.freedesktop.hostname1.SetPrettyHostname'' 0 [GoString name, GoBool askForAuth]) = Some e \<longrightarrow>
       (\<exists>t'. SetPrettyHostname env c name askForAuth t = Returns (Some e, c, t') \<and>
             length (remote_calls (drop (length t) t')) = 1)) \<and>
    (Err (Call env t ob ''org.freedesktop.hostname1.SetIconName'' 0 [GoString name, GoBool askForAuth]) = Some e \<longrightarrow>
       (\<exists>t'. SetIconName env c name askForAuth t = Returns (Some e, c, t') \<and>
             length (remote_calls (drop (length t) t')) = 1)) \<and>
    (Err (Call env t ob ''org.freedesktop.hostname1.SetChassis'' 0 [GoString name, GoBool askForAuth]) = Some e \<longrightarrow>
       (\<exists>t'. SetChassis env c name askForAuth t = Returns (Some e, c, t') \<and>
             length (remote_calls (drop (length t) t')) = 1)) \<and>
    (StoreVariant env (Call env t ob ''org.freedesktop.DBus.Properties.Get'' 0 [GoString ''org.freedesktop.hostname1'', GoString propertyName]) = Inl e \<longrightarrow>
       (\<exists>t'. GetProperty env c propertyName t = Returns ((GoNil, Some e), c, t') \<and>
             length (remote_calls (drop (length t) t')) = 1)) \<and>
    (StoreVariant env (Call env t ob ''org.freedesktop.DBus.Properties.Get'' 0 [GoString ''org.freedesktop.hostname1'', GoString ''Hostname'']) = Inl e \<longrightarrow>
       (\<exists>t'. GetHostname env c t = Returns (('''', Some e), c, t') \<and>
             length (remote_calls (drop (length t) t')) = 1)) \<and>
    (StoreVariant env (Call env t ob ''org.freedesktop.DBus.Properties.Get'' 0 [GoString ''org.freedesktop.hostname1'', GoString ''StaticHostname'']) = Inl e \<longrightarrow>
       (\<exists>t'. GetStaticHostname env c t = Returns (('''', Some e), c, t') \<and>
             length (remote_calls (drop (length t) t')) = 1)) \<and>
    (StoreProps env (Call env t ob ''org.freedesktop.DBus.Properties.GetAll'' 0 [GoString ''org.freedesktop.hostname1'']) = Inl e \<longrightarrow>
       (\<exists>t'. GetProperties env c t = Returns ((None, Some e), c, t') \<and>
             length (remote_calls (drop (length t) t')) = 1))"
  by (simp add: SetHostname_bound [OF assms] SetStaticHostname_bound [OF assms] SetPrettyHostname_bound [OF assms] SetIconName_bound [OF assms] SetChassis_bound [OF assms]
      GetProperty_bound [OF assms] GetProperties_bound [OF assms] GetHostname_coerce
      GetStaticHostname_coerce coerceString_def Let_def)

theorem remote_errors_returned_unchanged_witness:
  "object stubConn = Some 7 \<and>
   Err (Call (stubBus\<lparr>Call := (\<lambda>t ob method flags args. \<lparr>Err = Some (BusError ''org.freedesktop.DBus.Error.AccessDenied''), Body = []\<rparr>)\<rparr>) [] 7 ''org.freedesktop.hostname1.SetHostname'' 0 [GoString ''build-42'', GoBool False]) = Some (BusError ''org.freedesktop.DBus.Error.AccessDenied'') \<and>
   SetHostname (stubBus\<lparr>Call := (\<lambda>t ob method flags args. \<lparr>Err = Some (BusError ''org.freedesktop.DBus.Error.AccessDenied''), Body = []\<rparr>)\<rparr>) stubConn ''build-42'' False [] =
     Returns (Some (BusError ''org.freedesktop.DBus.Error.AccessDenied''), stubConn,
              [EvCall 7 ''org.freedesktop.hostname1.SetHostname'' 0 [GoString ''build-42'', GoBool False]
                 \<lparr>Err = Some (BusError ''org.freedesktop.DBus.Error.AccessDenied''), Body = []\<rparr>]) \<and>
   Err (Call (stubBus\<lparr>Call := (\<lambda>t ob method flags args. \<lparr>Err = Some (BusError ''org.freedesktop.DBus.Error.AccessDenied''), Body = []\<rparr>)\<rparr>) [] 7 ''org.freedesktop.hostname1.SetStaticHostname'' 0 [GoString ''build-42'', GoBool False]) = Some (BusError ''org.freedesktop.DBus.Error.AccessDenied'') \<and>
   SetStaticHostname (stubBus\<lparr>Call := (\<lambda>t ob method flags args. \<lparr>Err = Some (BusError ''org.freedesktop.DBus.Error.AccessDenied''), Body = []\<rparr>)\<rparr>) stubConn ''build-42'' False [] =
     Returns (Some (BusError ''org.freedesktop.DBus.Error.AccessDenied''), stubConn,
              [EvCall 7 ''org.freedesktop.hostname1.SetStaticHostname'' 0 [GoString ''build-42'', GoBool False]
                 \<lparr>Err = Some (BusError ''org.freedesktop.DBus.Error.AccessDenied''), Body = []\<rparr>]) \<and>
   Err (Call (stubBus\<lparr>Call := (\<lambda>t ob method flags args. \<lparr>Err = Some (BusError ''org.freedesktop.DBus.Error.AccessDenied''), Body = []\<rparr>)\<rparr>) [] 7 ''org.freedesktop.hostname1.SetPrettyHostname'' 0 [GoString ''build-42'', GoBool False]) = Some (BusError ''org.freedesktop.DBus.Error.AccessDenied'') \<and>
   SetPrettyHostname (stubBus\<lparr>Call := (\<lambda>t ob method flags args. \<lparr>Err = Some (BusError ''org.freedesktop.DBus.Error.AccessDenied''), Body = []\<rparr>)\<rparr>) stubConn ''build-42'' False [] =
     Returns (Some (BusError ''org.freedesktop.DBus.Error.AccessDenied''), stubConn,
              [EvCall 7 ''org.freedesktop.hostname1.SetPrettyHostname'' 0 [GoString ''build-42'', GoBool False]
                 \<lparr>Err = Some (BusError ''org.freedesktop.DBus.Error.AccessDenied''), Body = []\<rparr>]) \<and>
   Err (Call (stubBus\<lparr>Call := (\<lambda>t ob method flags args. \<lparr>Err = Some (BusError ''org.freedesktop.DBus.Error.AccessDenied''), Body = []\<rparr>)\<rparr>) [] 7 ''org.freedesktop.hostname1.SetIconName'' 0 [GoString ''build-42'', GoBool False]) = Some (BusError ''org.freedesktop.DBus.Error.AccessDenied'') \<and>
   SetIconName (stubBus\<lparr>Call := (\<lambda>t ob method flags args. \<lparr>Err = Some (BusError ''org.freedesktop.DBus.Error.AccessDenied''), Body = []\<rparr>)\<rparr>) stubConn ''build-42'' False [] =
     Returns (Some (BusError ''org.freedesktop.DBus.Error.AccessDenied''), stubConn,
              [EvCall 7 ''org.freedesktop.hostname1.SetIconName'' 0 [GoString ''build-42'', GoBool False]
                 \<lparr>Err = Some (BusError ''org.freedesktop.DBus.Error.AccessDenied''), Body = []\<rparr>]) \<and>
   Err (Call (stubBus\<lparr>Call := (\<lambda>t ob method flags args. \<lparr>Err = Some (BusError ''org.freedesktop.DBus.Error.AccessDenied''), Body = []\<rparr>)\<rparr>) [] 7 ''org.freedesktop.hostname1.SetChassis'' 0 [GoString ''build-42'', GoBool False]) = Some (BusError ''org.freedesktop.DBus.Error.AccessDenied'') \<and>
   SetChassis (stubBus\<lparr>Call := (\<lambda>t ob method flags args. \<lparr>Err = Some (BusError ''org.freedesktop.DBus.Error.AccessDenied''), Body = []\<rparr>)\<rparr>) stubConn ''build-42'' False [] =
     Returns (Some (BusError ''org.freedesktop.DBus.Error.AccessDenied''), stubConn,
              [EvCall 7 ''org.freedesktop.hostname1.SetChassis'' 0 [GoString ''build-42'', GoBool False]
                 \<lparr>Err = Some (BusError ''org.freedesktop.DBus.Error.AccessDenied''), Body = []\<rparr>]) \<and>
   StoreVariant (stubBus\<lparr>Call := (\<lambda>t ob method flags args. \<lparr>Err = Some (BusError ''org.freedesktop.DBus.Error.AccessDenied''), Body = []\<rparr>)\<rparr>) (Call (stubBus\<lparr>Call := (\<lambda>t ob method flags args. \<lparr>Err = Some (BusError ''org.freedesktop.DBus.Error.AccessDenied''), Body = []\<rparr>)\<rparr>) [] 7 ''org.freedesktop.DBus.Properties.Get'' 0 [GoString ''org.freedesktop.hostname1'', GoString ''Chassis'']) = Inl (BusError ''org.freedesktop.DBus.Error.AccessDenied'') \<and>
   GetProperty (stubBus\<lparr>Call := (\<lambda>t ob method flags args. \<lparr>Err = Some (BusError ''org.freedesktop.DBus.Error.AccessDenied''), Body = []\<rparr>)\<rparr>) stubConn ''Chassis'' [] =
     Returns ((GoNil, Some (BusError ''org.freedesktop.DBus.Error.AccessDenied'')), stubConn,
              [EvCall 7 ''org.freedesktop.DBus.Properties.Get'' 0 [GoString ''org.freedesktop.hostname1'', GoString ''Chassis'']
                 \<lparr>Err = Some (BusError ''org.freedesktop.DBus.Error.AccessDenied''), Body = []\<rparr>]) \<and>
   StoreVariant (stubBus\<lparr>Call := (\<lambda>t ob method flags args. \<lparr>Err = Some (BusError ''org.freedesktop.DBus.Error.AccessDenied''), Body = []\<rparr>)\<rparr>) (Call (stubBus\<lparr>Call := (\<lambda>t ob method flags args. \<lparr>Err = Some (BusError ''org.freedesktop.DBus.Error.AccessDenied''), Body = []\<rparr>)\<rparr>) [] 7 ''org.freedesktop.DBus.Properties.Get'' 0 [GoString ''org.freedesktop.hostname1'', GoString ''Hostname'']) = Inl (BusError ''org.freedesktop.DBus.Error.AccessDenied'') \<and>
   GetHostname (stubBus\<lparr>Call := (\<lambda>t ob method flags args. \<lparr>Err = Some (BusError ''org.freedesktop.DBus.Error.AccessDenied''), Body = []\<rparr>)\<rparr>) stubConn [] =
     Returns (('''', Some (BusError ''org.freedesktop.DBus.Error.AccessDenied'')), stubConn,
              [EvCall 7 ''org.freedesktop.DBus.Properties.Get'' 0 [GoString ''org.freedesktop.hostname1'', GoString ''Hostname'']
                 \<lparr>Err = Some (BusError ''org.freedesktop.DBus.Error.AccessDenied''), Body = []\<rparr>]) \<and>
   StoreVariant (stubBus\<lparr>Call := (\<lambda>t ob method flags args. \<lparr>Err = Some (BusError ''org.freedesktop.DBus.Error.AccessDenied''), Body = []\<rparr>)\<rparr>) (Call (stubBus\<lparr>Call := (\<lambda>t ob method flags args. \<lparr>Err = Some (BusError ''org.freedesktop.DBus.Error.AccessDenied''), Body = []\<rparr>)\<rparr>) [] 7 ''org.freedesktop.DBus.Properties.Get'' 0 [GoString ''org.freedesktop.hostname1'', GoString ''StaticHostname'']) = Inl (BusError ''org.freedesktop.DBus.Error.AccessDenied'') \<and>
   GetStaticHostname (stubBus\<lparr>Call := (\<lambda>t ob method flags args. \<lparr>Err = Some (BusError ''org.freedesktop.DBus.Error.AccessDenied''), Body = []\<rparr>)\<rparr>) stubConn [] =
     Returns (('''', Some (BusError ''org.freedesktop.DBus.Error.AccessDenied'')), stubConn,
              [EvCall 7 ''org.freedesktop.DBus.Properties.Get'' 0 [GoString ''org.freedesktop.hostname1'', GoString ''StaticHostname'']
                 \<lparr>Err = Some (BusError ''org.freedesktop.DBus.Error.AccessDenied''), Body = []\<rparr>]) \<and>
   StoreProps (stubBus\<lparr>Call := (\<lambda>t ob method flags args. \<lparr>Err = Some (BusError ''org.freedesktop.DBus.Error.AccessDenied''), Body = []\<rparr>)\<rparr>) (Call (stubBus\<lparr>Call := (\<lambda>t ob method flags args. \<lparr>Err = Some (BusError ''org.freedesktop.DBus.Error.AccessDenied''), Body = []\<rparr>)\<rparr>) [] 7 ''org.freedesktop.DBus.Properties.GetAll'' 0 [GoString ''org.freedesktop.hostname1'']) = Inl (BusError ''org.freedesktop.DBus.Error.AccessDenied'') \<and>
   GetProperties (stubBus\<lparr>Call := (\<lambda>t ob method flags args. \<lparr>Err = Some (BusError ''org.freedesktop.DBus.Error.AccessDenied''), Body = []\<rparr>)\<rparr>) stubConn [] =
     Returns ((None, Some (BusError ''org.freedesktop.DBus.Error.AccessDenied'')), stubConn,
              [EvCall 7 ''org.freedesktop.DBus.Properties.GetAll'' 0 [GoString ''org.freedesktop.hostname1'']
                 \<lparr>Err = Some (BusError ''org.freedesktop.DBus.Error.AccessDenied''), Body = []\<rparr>])"
proof -
  let ?bus = "stubBus\<lparr>Call := (\<lambda>t ob method flags args. \<lparr>Err = Some (BusError ''org.freedesktop.DBus.Error.AccessDenied''), Body = []\<rparr>)\<rparr>"
  have bound: "object stubConn = Some 7" by (simp add: stubConn_def)
  from remote_errors_returned_unchanged
         [OF bound, of ?bus "[]" "''build-42''" False "BusError ''org.freedesktop.DBus.Error.AccessDenied''" "''Chassis''"]
  show ?thesis
    by (simp add: bound SetHostname_bound [OF bound] SetStaticHostname_bound [OF bound] SetPrettyHostname_bound [OF bound] SetIconName_bound [OF bound] SetChassis_bound [OF bound]
        GetProperty_bound [OF bound] GetProperties_bound [OF bound] GetHostname_coerce
        GetStaticHostname_coerce coerceString_def Let_def stubBus_def stubStoreVariant_def
        stubStoreProps_def)
qed

text \<open>
  C9. On an adapter whose object is bound, each of \<^verbatim>\<open>GetProperties\<close>,
  \<^verbatim>\<open>GetProperty\<close>, \<^verbatim>\<open>GetHostname\<close>, \<^verbatim>\<open>GetStaticHostname\<close> and the five setters
  returns, hands back the adapter with the connection and the object it had, and adds to
  the trace one call on that object and nothing else.
\<close>

theorem operations_leave_adapter_unchanged:
  assumes "object c = Some ob"
  shows
   "(\<exists>r method args call. GetProperties env c t =
       Returns (r, c, t @ [EvCall ob method 0 args call])) \<and>
    (\<exists>r method args call. GetProperty env c propertyName t =
       Returns (r, c, t @ [EvCall ob method 0 args call])) \<and>
    (\<exists>r method args call. GetHostname env c t =
       Returns (r, c, t @ [EvCall ob method 0 args call])) \<and>
    (\<exists>r method args call. GetStaticHostname env c t =
       Returns (r, c, t @ [EvCall ob method 0 args call])) \<and>
    (\<exists>r method args call. SetHostname env c name askForAuth t =
       Returns (r, c, t @ [EvCall ob method 0 args call])) \<and>
    (\<exists>r method args call. SetStaticHostname env c name askForAuth t =
       Returns (r, c, t @ [EvCall ob method 0 args call])) \<and>
    (\<exists>r method args call. SetPrettyHostname env c name askForAuth t =
       Returns (r, c, t @ [EvCall ob method 0 args call])) \<and>
    (\<exists>r method args call. SetIconName env c name askForAuth t =
       Returns (r, c, t @ [EvCall ob method 0 args call])) \<and>
    (\<exists>r method args call. SetChassis env c name askForAuth t =
       Returns (r, c, t @ [EvCall ob method 0 args call]))"
proof -
  have getters:
    "\<exists>r method args call. GetProperties env c t =
       Returns (r, c, t @ [EvCall ob method 0 args call])"
    "\<exists>r method args call. GetProperty env c propertyName t =
       Returns (r, c, t @ [EvCall ob method 0 args call])"
    for propertyName
    by (auto simp: GetProperties_bound [OF assms] GetProperty_bound [OF assms] Let_def
             split: sum.splits)
  from getters(2) [of "''Hostname''"] have dyn:
    "\<exists>r method args call. GetHostname env c t =
       Returns (r, c, t @ [EvCall ob method 0 args call])"
    by (auto simp: GetHostname_coerce)
  from getters(2) [of "''StaticHostname''"] have static:
    "\<exists>r method args call. GetStaticHostname env c t =
       Returns (r, c, t @ [EvCall ob method 0 args call])"
    by (auto simp: GetStaticHostname_coerce)
  have setters:
    "\<exists>r method args call. SetHostname env c name askForAuth t =
       Returns (r, c, t @ [EvCall ob method 0 args call])"
    "\<exists>r method args call. SetStaticHostname env c name askForAuth t =
       Returns (r, c, t @ [EvCall ob method 0 args call])"
    "\<exists>r method args call. SetPrettyHostname env c name askForAuth t =
       Returns (r, c, t @ [EvCall ob method 0 args call])"
    "\<exists>r method args call. SetIconName env c name askForAuth t =
       Returns (r, c, t @ [EvCall ob method 0 args call])"
    "\<exists>r method args call. SetChassis env c name askForAuth t =
       Returns (r, c, t @ [EvCall ob method 0 args call])"
    by (simp_all add: SetHostname_bound [OF assms] SetStaticHostname_bound [OF assms] SetPrettyHostname_bound [OF assms] SetIconName_bound [OF assms] SetChassis_bound [OF assms] Let_def)
  from getters dyn static setters show ?thesis by blast
qed

theorem operations_leave_adapter_unchanged_witness:
  "object stubConn = Some 7 \<and>
   (\<exists>r method args call. GetProperties stubBus stubConn [] =
      Returns (r, stubConn, [EvCall 7 method 0 args call])) \<and>
   (\<exists>r method args call. GetProperty stubBus stubConn ''Chassis'' [] =
      Returns (r, stubConn, [EvCall 7 method 0 args call])) \<and>
   (\<exists>r method args call. GetHostname stubBus stubConn [] =
      Returns (r, stubConn, [EvCall 7 method 0 args call])) \<and>
   (\<exists>r method args call. GetStaticHostname stubBus stubConn [] =
      Returns (r, stubConn, [EvCall 7 method 0 args call])) \<and>
   (\<exists>r method args call. SetHostname stubBus stubConn ''build-42'' False [] =
      Returns (r, stubConn, [EvCall 7 method 0 args call])) \<and>
   (\<exists>r method args call. SetStaticHostname stubBus stubConn ''build-42'' False [] =
      Returns (r, stubConn, [EvCall 7 method 0 args call])) \<and>
   (\<exists>r method args call. SetPrettyHostname stubBus stubConn ''build-42'' False [] =
      Returns (r, stubConn, [EvCall 7 method 0 args call])) \<and>
   (\<exists>r method args call. SetIconName stubBus stubConn ''build-42'' False [] =
      Returns (r, stubConn, [EvCall 7 method 0 args call])) \<and>
   (\<exists>r method args call. SetChassis stubBus stubConn ''build-42'' False [] =
      Returns (r, stubConn, [EvCall 7 method 0 args call]))"
proof -
  have bound: "object stubConn = Some 7" by (simp add: stubConn_def)
  from operations_leave_adapter_unchanged
         [OF bound, of stubBus "[]" "''Chassis''" "''build-42''" False] bound
  show ?thesis by simp
qed


text \<open>
  C4. On a bound object \<^verbatim>\<open>GetProperties\<close> makes the one call
  \<^verbatim>\<open>org.freedesktop.DBus.Properties.GetAll\<close> with the interface name. When
  \<^verbatim>\<open>Store\<close> decodes the reply to the entries \<open>props\<close>, the result is a map that is not
  nil, with a nil error; its keys are exactly the names in \<open>props\<close>, and, the names of a
  Go map being distinct, each name is mapped to \<^verbatim>\<open>Value()\<close> of its variant. When
  \<^verbatim>\<open>Store\<close> reports an error, the result is the nil map and that error.
\<close>

theorem GetProperties_keys_and_values:
  assumes "object c = Some ob"
  shows
   "(StoreProps env (Call env t ob ''org.freedesktop.DBus.Properties.GetAll'' 0
                       [GoString ''org.freedesktop.hostname1'']) = Inr props \<longrightarrow>
       (\<exists>m. GetProperties env c t =
               Returns ((Some m, None), c,
                        t @ [EvCall ob ''org.freedesktop.DBus.Properties.GetAll'' 0
                               [GoString ''org.freedesktop.hostname1'']
                               (Call env t ob ''org.freedesktop.DBus.Properties.GetAll'' 0
                                  [GoString ''org.freedesktop.hostname1''])]) \<and>
            dom m = fst ` set props \<and>
            (distinct (map fst props) \<longrightarrow> (\<forall>(k, v) \<in> set props. m k = Some (Value v))))) \<and>
    (StoreProps env (Call env t ob ''org.freedesktop.DBus.Properties.GetAll'' 0
                       [GoString ''org.freedesktop.hostname1'']) = Inl e \<longrightarrow>
       GetProperties env c t =
         Returns ((None, Some e), c,
                  t @ [EvCall ob ''org.freedesktop.DBus.Properties.GetAll'' 0
                         [GoString ''org.freedesktop.hostname1'']
                         (Call env t ob ''org.freedesktop.DBus.Properties.GetAll'' 0
                            [GoString ''org.freedesktop.hostname1''])]))"
proof -
  have keys: "dom (rangeLoop props Map.empty) = fst ` set props"
    by (simp add: dom_rangeLoop)
  have unwrapped: "distinct (map fst props) \<longrightarrow>
                  (\<forall>(k, v) \<in> set props. rangeLoop props Map.empty k = Some (Value v))"
    by (auto simp: rangeLoop_entry)
  from keys unwrapped show ?thesis
    by (simp add: GetProperties_bound [OF assms] Let_def)
qed

theorem GetProperties_keys_and_values_witness:
  "object stubConn = Some 7 \<and>
   StoreProps stubBus (Call stubBus [] 7 ''org.freedesktop.DBus.Properties.GetAll'' 0
                         [GoString ''org.freedesktop.hostname1'']) =
     Inr [(''Hostname'', Variant ''s'' (GoString ''node-1'')),
          (''StaticHostname'', Variant ''i'' (GoInt32 42))] \<and>
   distinct (map fst [(''Hostname'', Variant ''s'' (GoString ''node-1'')),
                      (''StaticHostname'', Variant ''i'' (GoInt32 42))]) \<and>
   (\<exists>m. GetProperties stubBus stubConn [] =
           Returns ((Some m, None), stubConn,
                    [EvCall 7 ''org.freedesktop.DBus.Properties.GetAll'' 0
                       [GoString ''org.freedesktop.hostname1'']
                       \<lparr>Err = None, Body = [GoMap TString TVariant stubProps]\<rparr>]) \<and>
        dom m = {''Hostname'', ''StaticHostname''} \<and>
        m ''Hostname'' = Some (GoString ''node-1'') \<and>
        m ''StaticHostname'' = Some (GoInt32 42)) \<and>
   StoreProps (stubBus\<lparr>StoreProps := (\<lambda>call. Inl (BusError ''no reply''))\<rparr>)
     (Call (stubBus\<lparr>StoreProps := (\<lambda>call. Inl (BusError ''no reply''))\<rparr>) [] 7
        ''org.freedesktop.DBus.Properties.GetAll'' 0 [GoString ''org.freedesktop.hostname1'']) =
     Inl (BusError ''no reply'') \<and>
   GetProperties (stubBus\<lparr>StoreProps := (\<lambda>call. Inl (BusError ''no reply''))\<rparr>) stubConn [] =
     Returns ((None, Some (BusError ''no reply'')), stubConn,
              [EvCall 7 ''org.freedesktop.DBus.Properties.GetAll'' 0
                 [GoString ''org.freedesktop.hostname1'']
                 \<lparr>Err = None, Body = [GoMap TString TVariant stubProps]\<rparr>])"
proof -
  let ?entries = "[(''Hostname'', Variant ''s'' (GoString ''node-1'')),
                   (''StaticHostname'', Variant ''i'' (GoInt32 42))]"
  let ?failing = "stubBus\<lparr>StoreProps := (\<lambda>call. Inl (BusError ''no reply''))\<rparr>"
  have bound: "object stubConn = Some 7" by (simp add: stubConn_def)
  have reply: "Call stubBus [] 7 ''org.freedesktop.DBus.Properties.GetAll'' 0
                 [GoString ''org.freedesktop.hostname1''] =
               \<lparr>Err = None, Body = [GoMap TString TVariant stubProps]\<rparr>"
    by (simp add: stubBus_def stubCall_def)
  have reply': "Call ?failing [] 7 ''org.freedesktop.DBus.Properties.GetAll'' 0
                 [GoString ''org.freedesktop.hostname1''] =
               \<lparr>Err = None, Body = [GoMap TString TVariant stubProps]\<rparr>"
    by (simp add: stubBus_def stubCall_def)
  have decoded: "StoreProps stubBus (Call stubBus [] 7 ''org.freedesktop.DBus.Properties.GetAll'' 0
                         [GoString ''org.freedesktop.hostname1'']) = Inr ?entries"
    unfolding reply by (simp add: stubBus_def stubStoreProps_def stubProps_def)
  have failed: "StoreProps ?failing (Call ?failing [] 7 ''org.freedesktop.DBus.Properties.GetAll'' 0
                         [GoString ''org.freedesktop.hostname1'']) = Inl (BusError ''no reply'')"
    by simp
  have unique: "distinct (map fst ?entries)" by simp
  from GetProperties_keys_and_values [OF bound, of stubBus "[]" ?entries] decoded unique
  obtain m where m:
    "GetProperties stubBus stubConn [] =
           Returns ((Some m, None), stubConn,
                    [] @ [EvCall 7 ''org.freedesktop.DBus.Properties.GetAll'' 0
                       [GoString ''org.freedesktop.hostname1'']
                       (Call stubBus [] 7 ''org.freedesktop.DBus.Properties.GetAll'' 0
                          [GoString ''org.freedesktop.hostname1''])])"
    "dom m = fst ` set ?entries"
    "\<forall>(k, v) \<in> set ?entries. m k = Some (Value v)"
    by blast
  from m reply have first: "\<exists>m. GetProperties stubBus stubConn [] =
           Returns ((Some m, None), stubConn,
                    [EvCall 7 ''org.freedesktop.DBus.Properties.GetAll'' 0
                       [GoString ''org.freedesktop.hostname1'']
                       \<lparr>Err = None, Body = [GoMap TString TVariant stubProps]\<rparr>]) \<and>
        dom m = {''Hostname'', ''StaticHostname''} \<and>
        m ''Hostname'' = Some (GoString ''node-1'') \<and>
        m ''StaticHostname'' = Some (GoInt32 42)"
    by auto
  from GetProperties_keys_and_values
         [OF bound, of ?failing "[]" "[]" "BusError ''no reply''"] failed
  have "GetProperties ?failing stubConn [] =
     Returns ((None, Some (BusError ''no reply'')), stubConn,
              [] @ [EvCall 7 ''org.freedesktop.DBus.Properties.GetAll'' 0
                 [GoString ''org.freedesktop.hostname1'']
                 (Call ?failing [] 7 ''org.freedesktop.DBus.Properties.GetAll'' 0
                    [GoString ''org.freedesktop.hostname1''])])"
    by blast
  then have second: "GetProperties ?failing stubConn [] =
     Returns ((None, Some (BusError ''no reply'')), stubConn,
              [EvCall 7 ''org.freedesktop.DBus.Properties.GetAll'' 0
                 [GoString ''org.freedesktop.hostname1'']
                 \<lparr>Err = None, Body = [GoMap TString TVariant stubProps]\<rparr>])"
    unfolding reply' by simp
  from bound decoded unique first failed second show ?thesis by blast
qed


end
